theory Spec2Isabelle
  imports Complex_Main "HOL-Library.Stream" "HOL-Library.Sublist"
begin

section \<open>JavaScript values and effects\<close>

text \<open>
  The GPX engine (\<^verbatim>\<open>lib/gpx.ts\<close>) computes with JavaScript numbers. Arithmetic is
  exact in the model: a finite number is a \<^typ>\<open>real\<close>, and there is no rounding. An
  optional value (\<^verbatim>\<open>x?: T\<close>, possibly \<^verbatim>\<open>undefined\<close>) is a \<^typ>\<open>'a option\<close>. Strings
  are lists of 8-bit characters; the characters that \<^verbatim>\<open>escapeXml\<close> looks for are ASCII.
\<close>

text \<open>
  The speed variation and the realistic timestamps compute where a JavaScript number can
  leave the finite ones: \<^verbatim>\<open>Math.log(0)\<close> is \<^verbatim>\<open>-Infinity\<close>, a division by zero is an
  infinity or \<^verbatim>\<open>NaN\<close>, and \<^verbatim>\<open>Infinity * 0\<close> is \<^verbatim>\<open>NaN\<close>. There a number is a
  \<open>number\<close>, with the arithmetic of the language on the values that are not finite; the
  two zeros are not told apart (a zero divisor counts as \<open>+0\<close>). Elsewhere numbers are
  reals: the legacy path divides by the segment speed, which is zero only when the speed
  passed in is, and \<^verbatim>\<open>generatePacingCurve\<close> divides by \<open>pointCount - 1\<close>, which is zero
  for a curve of one point, that no caller asks for; at those inputs the model has the
  value of HOL (\<open>x / 0 = 0\<close>) and says nothing of the program.
\<close>

datatype number = Finite real | PlusInfinity | MinusInfinity | NaN

fun number_plus :: "number \<Rightarrow> number \<Rightarrow> number" where
  "number_plus (Finite a) (Finite b) = Finite (a + b)"
| "number_plus NaN y = NaN"
| "number_plus x NaN = NaN"
| "number_plus PlusInfinity MinusInfinity = NaN"
| "number_plus MinusInfinity PlusInfinity = NaN"
| "number_plus PlusInfinity y = PlusInfinity"
| "number_plus MinusInfinity y = MinusInfinity"
| "number_plus x PlusInfinity = PlusInfinity"
| "number_plus x MinusInfinity = MinusInfinity"

fun number_times :: "number \<Rightarrow> number \<Rightarrow> number" where
  "number_times (Finite a) (Finite b) = Finite (a * b)"
| "number_times NaN y = NaN"
| "number_times x NaN = NaN"
| "number_times (Finite a) PlusInfinity =
     (if a = 0 then NaN else if 0 < a then PlusInfinity else MinusInfinity)"
| "number_times (Finite a) MinusInfinity =
     (if a = 0 then NaN else if 0 < a then MinusInfinity else PlusInfinity)"
| "number_times PlusInfinity (Finite b) =
     (if b = 0 then NaN else if 0 < b then PlusInfinity else MinusInfinity)"
| "number_times MinusInfinity (Finite b) =
     (if b = 0 then NaN else if 0 < b then MinusInfinity else PlusInfinity)"
| "number_times PlusInfinity PlusInfinity = PlusInfinity"
| "number_times PlusInfinity MinusInfinity = MinusInfinity"
| "number_times MinusInfinity PlusInfinity = MinusInfinity"
| "number_times MinusInfinity MinusInfinity = PlusInfinity"

fun number_divide :: "number \<Rightarrow> number \<Rightarrow> number" where
  "number_divide (Finite a) (Finite b) =
     (if b \<noteq> 0 then Finite (a / b)
      else if a = 0 then NaN else if 0 < a then PlusInfinity else MinusInfinity)"
| "number_divide NaN y = NaN"
| "number_divide x NaN = NaN"
| "number_divide (Finite a) y = Finite 0"
| "number_divide PlusInfinity (Finite b) = (if 0 \<le> b then PlusInfinity else MinusInfinity)"
| "number_divide MinusInfinity (Finite b) = (if 0 \<le> b then MinusInfinity else PlusInfinity)"
| "number_divide x y = NaN"

text \<open>\<^verbatim>\<open>Math.max\<close> and \<^verbatim>\<open>Math.min\<close> of two numbers: \<^verbatim>\<open>NaN\<close> if either is.\<close>

fun Math_max :: "number \<Rightarrow> number \<Rightarrow> number" where
  "Math_max (Finite a) (Finite b) = Finite (max a b)"
| "Math_max NaN y = NaN"
| "Math_max x NaN = NaN"
| "Math_max PlusInfinity y = PlusInfinity"
| "Math_max x PlusInfinity = PlusInfinity"
| "Math_max MinusInfinity y = y"
| "Math_max x MinusInfinity = x"

fun Math_min :: "number \<Rightarrow> number \<Rightarrow> number" where
  "Math_min (Finite a) (Finite b) = Finite (min a b)"
| "Math_min NaN y = NaN"
| "Math_min x NaN = NaN"
| "Math_min MinusInfinity y = MinusInfinity"
| "Math_min x MinusInfinity = MinusInfinity"
| "Math_min PlusInfinity y = y"
| "Math_min x PlusInfinity = x"

fun Math_sqrt :: "number \<Rightarrow> number" where
  "Math_sqrt (Finite a) = (if a < 0 then NaN else Finite (sqrt a))"
| "Math_sqrt PlusInfinity = PlusInfinity"
| "Math_sqrt MinusInfinity = NaN"
| "Math_sqrt NaN = NaN"

fun Math_log :: "number \<Rightarrow> number" where
  "Math_log (Finite a) =
     (if a < 0 then NaN else if a = 0 then MinusInfinity else Finite (ln a))"
| "Math_log PlusInfinity = PlusInfinity"
| "Math_log MinusInfinity = NaN"
| "Math_log NaN = NaN"

text \<open>
  A \<^verbatim>\<open>Date\<close> holds a whole number of milliseconds since the epoch, or is invalid.
  \<^verbatim>\<open>new Date(x)\<close> on a number applies the language's \<^verbatim>\<open>TimeClip\<close>: out of
  \<open>\<plusminus>8.64e15\<close> the date is invalid, otherwise the fraction is cut off towards zero.
\<close>

datatype date = Date int | InvalidDate

definition timeClip :: "real \<Rightarrow> date" where
  "timeClip t =
     (if \<bar>t\<bar> > 8640000000000000 then InvalidDate
      else Date (if 0 \<le> t then \<lfloor>t\<rfloor> else \<lceil>t\<rceil>))"

text \<open>\<^verbatim>\<open>new Date(d.getTime() + ms)\<close>; the time of an invalid date is \<^verbatim>\<open>NaN\<close>.\<close>

definition dateAfter :: "date \<Rightarrow> real \<Rightarrow> date" where
  "dateAfter d ms = (case d of InvalidDate \<Rightarrow> InvalidDate | Date t \<Rightarrow> timeClip (real_of_int t + ms))"

text \<open>The same on a number: a date made of \<^verbatim>\<open>NaN\<close> or of an infinity is invalid.\<close>

definition dateAfter_number :: "date \<Rightarrow> number \<Rightarrow> date" where
  "dateAfter_number d x = (case x of Finite ms \<Rightarrow> dateAfter d ms | _ \<Rightarrow> InvalidDate)"

text \<open>\<^verbatim>\<open>Math.round\<close> rounds halves upwards.\<close>

definition Math_round :: "real \<Rightarrow> real" where
  "Math_round x = of_int \<lfloor>x + 1 / 2\<rfloor>"

text \<open>\<^verbatim>\<open>x || d\<close> on an optional number: \<^verbatim>\<open>undefined\<close> and \<open>0\<close> are falsy.\<close>

definition num_or :: "real option \<Rightarrow> real \<Rightarrow> real" where
  "num_or x d = (case x of None \<Rightarrow> d | Some v \<Rightarrow> if v = 0 then d else v)"

text \<open>\<^verbatim>\<open>xs[i]\<close> reads \<^verbatim>\<open>undefined\<close> out of range.\<close>

definition nth_opt :: "'a list \<Rightarrow> nat \<Rightarrow> 'a option" where
  "nth_opt xs i = (if i < length xs then Some (xs ! i) else None)"

text \<open>
  \<^verbatim>\<open>Math.atan2(y, x)\<close> on the reals (signed zeros apart).
\<close>

definition Math_atan2 :: "real \<Rightarrow> real \<Rightarrow> real" where
  "Math_atan2 y x =
     (if 0 < x then arctan (y / x)
      else if x < 0 then (if 0 \<le> y then arctan (y / x) + pi else arctan (y / x) - pi)
      else if 0 < y then pi / 2
      else if y < 0 then - (pi / 2)
      else 0)"

text \<open>
  What the engine takes from outside: the draws of \<^verbatim>\<open>Math.random()\<close>, in the order
  they are made, the responses of the elevation proxy to the successive \<^verbatim>\<open>fetch\<close>
  calls, and the clock read by \<^verbatim>\<open>new Date()\<close>. A \<^verbatim>\<open>fetch\<close> is rejected (a transport
  error, or the abort after 30 seconds), or answers with a status that is not ok, or with
  a body that is not JSON, or with JSON without a \<^verbatim>\<open>results\<close> array, or with a
  \<^verbatim>\<open>results\<close> array; an entry of the array is an object with a numeric \<^verbatim>\<open>elevation\<close>,
  or \<^verbatim>\<open>null\<close> (here \<open>None\<close>).
\<close>

datatype response =
    FetchRejected
  | NotOk nat
  | JsonRejected
  | NoResults
  | Results "real option list"

record world =
  random :: "real stream"
  network :: "response stream"
  clock :: int

definition Math_random :: "world \<Rightarrow> real \<times> world" where
  "Math_random w = (shd (random w), w\<lparr>random := stl (random w)\<rparr>)"

definition fetch :: "world \<Rightarrow> response \<times> world" where
  "fetch w = (shd (network w), w\<lparr>network := stl (network w)\<rparr>)"

section \<open>Data model\<close>

datatype activityType = Run | Bike | Walk

datatype elevationProfile = Flat | Hilly | Mountainous

record point =
  lat :: real
  lng :: real

record GPXPoint = point +
  elevation :: "real option"
  time :: "date option"

record PointWithElevation = point +
  ele :: real

record TimestampedPoint = point +
  time :: date
  speed :: "number option"
  elevation :: "number option"

record range =
  min_val :: real
  max_val :: real

definition DEFAULT_SPEEDS :: "activityType \<Rightarrow> real" where
  "DEFAULT_SPEEDS a = (case a of Run \<Rightarrow> 10 | Bike \<Rightarrow> 25 | Walk \<Rightarrow> 5)"

definition ELEVATION_PROFILES :: "elevationProfile \<Rightarrow> range" where
  "ELEVATION_PROFILES p =
     (case p of
        Flat \<Rightarrow> \<lparr>min_val = 0, max_val = 10\<rparr>
      | Hilly \<Rightarrow> \<lparr>min_val = 20, max_val = 50\<rparr>
      | Mountainous \<Rightarrow> \<lparr>min_val = 50, max_val = 100\<rparr>)"

section \<open>Text escaping\<close>

text \<open>\<^verbatim>\<open>text.replace(/c/g, r)\<close> for a single character \<open>c\<close>.\<close>

definition replaceAll :: "char \<Rightarrow> string \<Rightarrow> string \<Rightarrow> string" where
  "replaceAll c r text = concat (map (\<lambda>x. if x = c then r else [x]) text)"

definition escapeXml :: "string \<Rightarrow> string" where
  \<open>escapeXml text =
     replaceAll (CHR 0x27) ''&apos;''
       (replaceAll (CHR 0x22) ''&quot;''
         (replaceAll (CHR ''>'') ''&gt;''
           (replaceAll (CHR ''<'') ''&lt;''
             (replaceAll (CHR ''&'') ''&amp;'' text))))\<close>

section \<open>Grade-based speed adjustment\<close>

definition calculateSpeedAdjustmentForElevation :: "real \<Rightarrow> real \<Rightarrow> real" where
  "calculateSpeedAdjustmentForElevation elevationChange distance =
     (if distance = 0 then 1
      else
        let gradient = (elevationChange / 1000) / distance in
        if gradient > 0.05 then 0.6
        else if gradient > 0.02 then 0.8
        else if gradient < - 0.05 then 1.2
        else if gradient < - 0.02 then 1.1
        else 1)"

section \<open>Pacing curve\<close>

record pattern =
  warmup :: real
  peak :: real
  fatigue :: real

definition patterns :: "activityType \<Rightarrow> pattern" where
  "patterns a =
     (case a of
        Run \<Rightarrow> \<lparr>warmup = 0.85, peak = 1.08, fatigue = 0.92\<rparr>
      | Bike \<Rightarrow> \<lparr>warmup = 0.90, peak = 1.05, fatigue = 0.95\<rparr>
      | Walk \<Rightarrow> \<lparr>warmup = 0.95, peak = 1.02, fatigue = 0.98\<rparr>)"

text \<open>The body of the loop of \<^verbatim>\<open>generatePacingCurve\<close>: the multiplier pushed at index \<open>i\<close>.\<close>

definition generatePacingCurve_multiplier :: "nat \<Rightarrow> activityType \<Rightarrow> nat \<Rightarrow> real" where
  "generatePacingCurve_multiplier pointCount activityType i =
     (let pattern = patterns activityType;
          progress = real i / (real pointCount - 1)
      in if progress < 0.2 then
           let warmupProgress = progress / 0.2
           in warmup pattern + (1 - warmup pattern) * warmupProgress
         else if progress < 0.7 then
           let peakProgress = (progress - 0.2) / 0.5;
               sineVariation = sin (peakProgress * pi * 2) * 0.03
           in peak pattern + sineVariation
         else
           let fatigueProgress = (progress - 0.7) / 0.3
           in peak pattern - (peak pattern - fatigue pattern) * fatigueProgress)"

definition generatePacingCurve :: "nat \<Rightarrow> activityType \<Rightarrow> real list" where
  "generatePacingCurve pointCount activityType =
     map (generatePacingCurve_multiplier pointCount activityType) [0..<pointCount]"

section \<open>Stochastic speed variation\<close>

definition addSpeedVariation :: "real \<Rightarrow> real \<Rightarrow> world \<Rightarrow> number \<times> world" where
  "addSpeedVariation baseSpeed variationFactor w =
     (let (u1, w1) = Math_random w;
          (u2, w2) = Math_random w1;
          gaussian = number_times (Math_sqrt (number_times (Finite (- 2)) (Math_log (Finite u1))))
                       (Finite (cos (2 * pi * u2)));
          variation = number_times gaussian (Finite variationFactor);
          speedWithVariation = number_times (Finite baseSpeed) (number_plus (Finite 1) variation);
          minSpeed = baseSpeed * 0.2;
          maxSpeed = baseSpeed * 1.8
      in (Math_max (Finite minSpeed) (Math_min (Finite maxSpeed) speedWithVariation), w2))"

section \<open>Legacy generation path\<close>

text \<open>
  Coordinates arrive as \<^verbatim>\<open>[lng, lat]\<close> pairs. The distance between two of them is
  computed by the library function \<^verbatim>\<open>distance\<close> of \<^verbatim>\<open>@turf/distance\<close>, in
  kilometres; it is a parameter of the model.
\<close>

type_synonym coordinate = "real \<times> real"

definition calculateSegmentDistance ::
  "(coordinate \<Rightarrow> coordinate \<Rightarrow> real) \<Rightarrow> coordinate \<Rightarrow> coordinate \<Rightarrow> real" where
  "calculateSegmentDistance distance coord1 coord2 =
     (let from = (fst coord1, snd coord1);
          to = (fst coord2, snd coord2)
      in distance from to)"

definition calculateCoordinatesDistance ::
  "(coordinate \<Rightarrow> coordinate \<Rightarrow> real) \<Rightarrow> coordinate list \<Rightarrow> real" where
  "calculateCoordinatesDistance distance coordinates =
     foldl (\<lambda>total i. total +
              calculateSegmentDistance distance (coordinates ! i) (coordinates ! (i + 1)))
       0 [0..<length coordinates - 1]"

text \<open>
  \<^verbatim>\<open>baseElevation\<close> is an optional argument with default 100; one draw of
  \<^verbatim>\<open>Math.random()\<close> gives the noise.
\<close>

definition calculateElevation ::
  "nat \<Rightarrow> nat \<Rightarrow> real \<Rightarrow> real \<Rightarrow> real \<Rightarrow> elevationProfile \<Rightarrow> real option \<Rightarrow> world
     \<Rightarrow> real \<times> world" where
  "calculateElevation pointIndex totalPoints currentDistance totalDistance totalElevationGain
       elevationProfile baseElevation_arg w =
     (let baseElevation = (case baseElevation_arg of None \<Rightarrow> 100 | Some b \<Rightarrow> b);
          progress = real pointIndex / (real totalPoints - 1);
          profileSettings = ELEVATION_PROFILES elevationProfile;
          elevationVariation = min_val profileSettings +
            (max_val profileSettings - min_val profileSettings) * sin (progress * pi * 2);
          cumulativeGain = totalElevationGain * progress;
          (r, w1) = Math_random w;
          noise = (r - 0.5) * 10
      in (Math_round (baseElevation + cumulativeGain + elevationVariation + noise), w1))"

text \<open>
  The pause that the loop of \<^verbatim>\<open>generateTrackPoints\<close> adds to a segment: with a pause
  duration above zero, one time in ten (a draw below 0.1), between half the duration and
  all of it. The second draw is made only when the first one is below 0.1.
\<close>

definition generateTrackPoints_pause :: "real \<Rightarrow> world \<Rightarrow> real \<times> world" where
  "generateTrackPoints_pause pauseDuration w =
     (if pauseDuration > 0 then
        let (r, w') = Math_random w
        in if r < 0.1 then
             let (r2, w'') = Math_random w'
             in (pauseDuration * 1000 * (0.5 + r2 * 0.5), w'')
           else (0, w')
      else (0, w))"

text \<open>
  The loop of \<^verbatim>\<open>generateTrackPoints\<close> runs \<open>i\<close> over the indices of the coordinates.
  Its variables are \<^verbatim>\<open>points\<close>, \<^verbatim>\<open>currentTime\<close> and \<^verbatim>\<open>totalDistance\<close>, and the
  world; \<^verbatim>\<open>cumulativeElevation\<close> is the constant 0. One pass of the body is
  \<open>generateTrackPoints_body\<close>, in three blocks: the elevation of the point, the speed of
  the segment that leaves it, and the pause.
\<close>

type_synonym trackState = "GPXPoint list \<times> date \<times> real \<times> world"

text \<open>The elevation of point \<open>i\<close>, when elevations are tracked.\<close>

definition generateTrackPoints_elevation ::
  "nat \<Rightarrow> nat \<Rightarrow> real \<Rightarrow> real \<Rightarrow> real option \<Rightarrow> elevationProfile \<Rightarrow> real \<Rightarrow> world
     \<Rightarrow> real option \<times> world" where
  "generateTrackPoints_elevation i totalPoints totalDistance totalRouteDistance elevationGain
       elevationProfile cumulativeElevation w =
     (if elevationGain \<noteq> None \<or> elevationProfile \<noteq> Flat then
        let (e, w') = calculateElevation i totalPoints totalDistance totalRouteDistance
                        (num_or elevationGain 0) elevationProfile (Some cumulativeElevation) w
        in (Some e, w')
      else (None, w))"

text \<open>
  The speed of the segment that leaves point \<open>i\<close>, from the elevation of point \<open>i\<close> and
  from \<^verbatim>\<open>points[i - 1]?.elevation\<close>.
\<close>

definition generateTrackPoints_speed ::
  "real \<Rightarrow> bool \<Rightarrow> real option \<Rightarrow> real option \<Rightarrow> real \<Rightarrow> world \<Rightarrow> real \<times> world" where
  "generateTrackPoints_speed speedKmh addNoise pointElevation previousElevation segmentDistance
       w =
     (if addNoise then
        let (r, w') = Math_random w;
            variation = 0.8 + r * 0.4;
            s = speedKmh * variation
        in (case (pointElevation, previousElevation) of
              (Some e, Some pe) \<Rightarrow>
                let elevationChange = e - pe;
                    elevationFactor =
                      calculateSpeedAdjustmentForElevation elevationChange segmentDistance
                in (s * elevationFactor, w')
            | _ \<Rightarrow> (s, w'))
      else (speedKmh, w))"

definition generateTrackPoints_body ::
  "(coordinate \<Rightarrow> coordinate \<Rightarrow> real) \<Rightarrow> coordinate list \<Rightarrow> real \<Rightarrow> real option
     \<Rightarrow> elevationProfile \<Rightarrow> bool \<Rightarrow> real \<Rightarrow> real \<Rightarrow> real \<Rightarrow> trackState \<Rightarrow> nat \<Rightarrow> trackState" where
  "generateTrackPoints_body distance coordinates speedKmh elevationGain elevationProfile addNoise
       pauseDuration totalRouteDistance cumulativeElevation st i =
     (let (points, currentTime, totalDistance, w) = st;
          (lng, lat) = coordinates ! i;
          (elevation, w1) =
            generateTrackPoints_elevation i (length coordinates) totalDistance
              totalRouteDistance elevationGain elevationProfile cumulativeElevation w;
          points1 = points @ [\<lparr>lat = lat, lng = lng, GPXPoint.elevation = elevation,
                                GPXPoint.time = Some currentTime\<rparr>]
      in if int i < int (length coordinates) - 1 then
           let segmentDistance =
                 calculateSegmentDistance distance (coordinates ! i) (coordinates ! (i + 1));
               totalDistance1 = totalDistance + segmentDistance;
               previous = (if i = 0 then None
                           else case nth_opt points1 (i - 1) of
                                  None \<Rightarrow> None
                                | Some p \<Rightarrow> GPXPoint.elevation p);
               (segmentSpeedKmh, w2) =
                 generateTrackPoints_speed speedKmh addNoise elevation previous
                   segmentDistance w1;
               segmentTimeHours = segmentDistance / segmentSpeedKmh;
               segmentTimeMs = segmentTimeHours * 3600 * 1000;
               (pauseMs, w3) = generateTrackPoints_pause pauseDuration w2
           in (points1, dateAfter currentTime (segmentTimeMs + pauseMs), totalDistance1, w3)
         else (points1, currentTime, totalDistance, w1))"

definition generateTrackPoints ::
  "(coordinate \<Rightarrow> coordinate \<Rightarrow> real) \<Rightarrow> coordinate list \<Rightarrow> date \<Rightarrow> real \<Rightarrow> real option
     \<Rightarrow> elevationProfile \<Rightarrow> bool \<Rightarrow> real \<Rightarrow> world \<Rightarrow> GPXPoint list \<times> world" where
  "generateTrackPoints distance coordinates startTime speedKmh elevationGain elevationProfile
       addNoise pauseDuration w =
     (if length coordinates < 2 then
        (map (\<lambda>(lng, lat). \<lparr>lat = lat, lng = lng, GPXPoint.elevation = None,
                              GPXPoint.time = Some startTime\<rparr>) coordinates, w)
      else
        let currentTime = startTime;
            totalDistance = 0;
            cumulativeElevation = 0;
            totalRouteDistance = calculateCoordinatesDistance distance coordinates;
            (points, currentTime', totalDistance', w') =
              foldl (generateTrackPoints_body distance coordinates speedKmh elevationGain
                       elevationProfile addNoise pauseDuration totalRouteDistance
                       cumulativeElevation)
                ([], currentTime, totalDistance, w) [0..<length coordinates]
        in (points, w'))"

section \<open>Geodesic distance\<close>

definition haversineDistance :: "real \<Rightarrow> real \<Rightarrow> real \<Rightarrow> real \<Rightarrow> real" where
  "haversineDistance lat1 lng1 lat2 lng2 =
     (let R = 6371;
          dLat = (lat2 - lat1) * pi / 180;
          dLng = (lng2 - lng1) * pi / 180;
          a = sin (dLat / 2) * sin (dLat / 2) +
              cos (lat1 * pi / 180) * cos (lat2 * pi / 180) *
              sin (dLng / 2) * sin (dLng / 2);
          c = 2 * Math_atan2 (sqrt a) (sqrt (1 - a))
      in R * c)"

definition calculateRouteDistance :: "point list \<Rightarrow> real" where
  "calculateRouteDistance points =
     foldl (\<lambda>totalDistance i. totalDistance +
              haversineDistance (lat (points ! (i - 1))) (lng (points ! (i - 1)))
                (lat (points ! i)) (lng (points ! i)))
       0 [1..<length points]"

section \<open>Elevation lookup\<close>

text \<open>
  What \<^verbatim>\<open>callOpenElevationAPI\<close> can throw: the rejection of \<^verbatim>\<open>fetch\<close>, its own errors
  on a response that is not ok, on a body without a \<^verbatim>\<open>results\<close> array and on a
  \<^verbatim>\<open>results\<close> array of the wrong length, the rejection of \<^verbatim>\<open>response.json()\<close>, and the
  \<^verbatim>\<open>TypeError\<close> of reading \<^verbatim>\<open>result.elevation\<close> on a \<^verbatim>\<open>null\<close> entry.
  \<^verbatim>\<open>RangeError\<close> is what \<^verbatim>\<open>toISOString\<close> throws on an invalid date.
\<close>

datatype error =
    FetchError
  | ProxyError nat
  | JsonError
  | InvalidFormat
  | CountMismatch nat nat
  | TypeError
  | RangeError

definition callOpenElevationAPI ::
  "point list \<Rightarrow> world \<Rightarrow> (error + PointWithElevation list) \<times> world" where
  "callOpenElevationAPI points w =
     (let (response, w1) = fetch w
      in case response of
           FetchRejected \<Rightarrow> (Inl FetchError, w1)
         | NotOk status \<Rightarrow> (Inl (ProxyError status), w1)
         | JsonRejected \<Rightarrow> (Inl JsonError, w1)
         | NoResults \<Rightarrow> (Inl InvalidFormat, w1)
         | Results results \<Rightarrow>
             if length results \<noteq> length points
             then (Inl (CountMismatch (length results) (length points)), w1)
             else (case those results of
                     None \<Rightarrow> (Inl TypeError, w1)
                   | Some elevations \<Rightarrow>
                       (Inr (map (\<lambda>(point, e).
                                    \<lparr>lat = lat point, lng = lng point, ele = Math_round e\<rparr>)
                               (zip points elevations)), w1)))"

text \<open>
  \<^verbatim>\<open>points.map((point, index) => ...)\<close> of \<^verbatim>\<open>generateFallbackElevation\<close>, from a given
  index on; each point takes one draw.
\<close>

fun generateFallbackElevation_from ::
  "nat \<Rightarrow> point list \<Rightarrow> world \<Rightarrow> PointWithElevation list \<times> world" where
  "generateFallbackElevation_from index [] w = ([], w)"
| "generateFallbackElevation_from index (point # rest) w =
     (let baseElevation = 100;
          latVariation = \<bar>lat point\<bar> * 2;
          lngVariation = sin (lng point * pi / 180) * 50;
          (r, w1) = Math_random w;
          randomVariation = (r - 0.5) * 100;
          routeProgression = real index * 2;
          elevation = max 0 (baseElevation + latVariation + lngVariation + randomVariation
                             + routeProgression);
          (others, w2) = generateFallbackElevation_from (index + 1) rest w1
      in (\<lparr>lat = lat point, lng = lng point, ele = Math_round elevation\<rparr> # others, w2))"

definition generateFallbackElevation ::
  "point list \<Rightarrow> world \<Rightarrow> PointWithElevation list \<times> world" where
  "generateFallbackElevation points w = generateFallbackElevation_from 0 points w"

definition maxRetries :: nat where
  "maxRetries = 2"

text \<open>
  The attempts of \<^verbatim>\<open>fetchElevationBatch\<close>, from a given one on. An attempt that throws
  is caught and the next one is made; the waits between attempts (\<^verbatim>\<open>delay\<close>) pass time
  and nothing else, and are left out.
\<close>

function fetchElevationBatch_from ::
  "point list \<Rightarrow> nat \<Rightarrow> world \<Rightarrow> PointWithElevation list \<times> world" where
  "fetchElevationBatch_from points attempt w =
     (if attempt \<le> maxRetries then
        (case callOpenElevationAPI points w of
           (Inr result, w1) \<Rightarrow> (result, w1)
         | (Inl error, w1) \<Rightarrow> fetchElevationBatch_from points (attempt + 1) w1)
      else generateFallbackElevation points w)"
  by pat_completeness auto
termination
  by (relation "measure (\<lambda>(points, attempt, w). maxRetries + 1 - attempt)") auto

definition fetchElevationBatch :: "point list \<Rightarrow> world \<Rightarrow> PointWithElevation list \<times> world" where
  "fetchElevationBatch points w = fetchElevationBatch_from points 0 w"

definition BATCH_SIZE :: nat where
  "BATCH_SIZE = 100"

function addElevationToPoints_from ::
  "point list \<Rightarrow> nat \<Rightarrow> PointWithElevation list \<Rightarrow> world \<Rightarrow> PointWithElevation list \<times> world" where
  "addElevationToPoints_from points i enrichedPoints w =
     (if i < length points then
        let batch = take BATCH_SIZE (drop i points);
            (batchResults, w1) = fetchElevationBatch batch w
        in addElevationToPoints_from points (i + BATCH_SIZE) (enrichedPoints @ batchResults) w1
      else (enrichedPoints, w))"
  by pat_completeness auto
termination
  by (relation "measure (\<lambda>(points, i, enrichedPoints, w). length points - i)")
     (auto simp: BATCH_SIZE_def)

text \<open>
  \<^verbatim>\<open>addElevationToPoints\<close> returns a promise; a rejection would be the \<open>Inl\<close> that
  \<^verbatim>\<open>generateRealisticTimestamps\<close> catches.
\<close>

definition addElevationToPoints ::
  "point list \<Rightarrow> world \<Rightarrow> (error + PointWithElevation list) \<times> world" where
  "addElevationToPoints points w =
     (if length points = 0 then (Inr [], w)
      else let (enrichedPoints, w1) = addElevationToPoints_from points 0 [] w
           in (Inr enrichedPoints, w1))"

section \<open>Realistic timestamps\<close>

definition calculateRealisticElevation ::
  "number \<Rightarrow> number \<Rightarrow> real \<Rightarrow> real \<Rightarrow> world \<Rightarrow> number \<times> world" where
  "calculateRealisticElevation currentElevation progressRatio totalElevationGain totalDistance w =
     (let targetElevation =
            number_plus (Finite 100) (number_times (Finite totalElevationGain) progressRatio);
          (r, w1) = Math_random w;
          variation = (r - 0.5) * 20;
          smoothingFactor = 0.7;
          newElevation =
            number_plus (number_times currentElevation (Finite smoothingFactor))
              (number_times (number_plus targetElevation (Finite variation))
                 (Finite (1 - smoothingFactor)))
      in (Math_max (Finite 0) newElevation, w1))"

definition getStartingElevation :: "world \<Rightarrow> real \<times> world" where
  "getStartingElevation w = (let (r, w1) = Math_random w in (50 + r * 150, w1))"

text \<open>
  The loop of \<^verbatim>\<open>generateRealisticTimestamps\<close> runs \<open>i\<close> from 1. Its variables are
  \<^verbatim>\<open>result\<close>, \<^verbatim>\<open>currentTime\<close>, \<^verbatim>\<open>totalDistance\<close> and \<^verbatim>\<open>cumulativeElevation\<close>, and
  the world. One pass of the body:
\<close>

type_synonym timestampState = "TimestampedPoint list \<times> date \<times> real \<times> number \<times> world"

definition generateRealisticTimestamps_body ::
  "point list \<Rightarrow> real \<Rightarrow> real \<Rightarrow> real \<Rightarrow> bool \<Rightarrow> real \<Rightarrow> bool \<Rightarrow> PointWithElevation list
     \<Rightarrow> real \<Rightarrow> real list \<Rightarrow> timestampState \<Rightarrow> nat \<Rightarrow> timestampState" where
  "generateRealisticTimestamps_body points avgSpeedKmh samplingRateSeconds speedVariation
       addElevation elevationGain useRealElevation pointsWithElevation totalRouteDistance
       pacingCurve st i =
     (let (result, currentTime, totalDistance, cumulativeElevation, w) = st;
          prevPoint = points ! (i - 1);
          currentPoint = points ! i;
          segmentDistance = haversineDistance (lat prevPoint) (lng prevPoint)
                              (lat currentPoint) (lng currentPoint);
          totalDistance1 = totalDistance + segmentDistance;
          pacingMultiplier = pacingCurve ! i;
          baseSpeed = avgSpeedKmh * pacingMultiplier;
          (speedWithVariation, w1) = addSpeedVariation baseSpeed speedVariation w;
          segmentTimeHours = number_divide (Finite segmentDistance) speedWithVariation;
          segmentTimeMs = number_times (number_times segmentTimeHours (Finite 3600)) (Finite 1000);
          minTimeMs = samplingRateSeconds * 1000;
          actualTimeMs = Math_max segmentTimeMs (Finite minTimeMs);
          currentTime1 = dateAfter_number currentTime actualTimeMs;
          (elevation, cumulativeElevation1, w2) =
            (if addElevation then
               if useRealElevation \<and> length pointsWithElevation > 0 then
                 (Some (Finite (num_or (map_option ele (nth_opt pointsWithElevation i)) 100)),
                  cumulativeElevation, w1)
               else
                 let progressRatio =
                       number_divide (Finite totalDistance1) (Finite totalRouteDistance);
                     (e, w') = calculateRealisticElevation cumulativeElevation progressRatio
                                 elevationGain totalRouteDistance w1
                 in (Some e, e, w')
             else (None, cumulativeElevation, w1))
      in (result @ [\<lparr>lat = lat currentPoint, lng = lng currentPoint,
                       TimestampedPoint.time = currentTime1,
                       TimestampedPoint.speed = Some speedWithVariation,
                       TimestampedPoint.elevation = elevation\<rparr>],
          currentTime1, totalDistance1, cumulativeElevation1, w2))"

section \<open>Track serialisation\<close>

text \<open>
  The formatting of numbers and dates is the language's own: \<^verbatim>\<open>x.toFixed(n)\<close>, the
  conversion of a number inside a template string, and \<^verbatim>\<open>toISOString\<close> of a valid
  date. They are parameters of the model. On an invalid date \<^verbatim>\<open>toISOString\<close> throws.
\<close>

record builtins =
  toFixed :: "real \<Rightarrow> nat \<Rightarrow> string"
  toString :: "real \<Rightarrow> string"
  toISOString :: "int \<Rightarrow> string"

text \<open>\<^verbatim>\<open>x.toFixed(n)\<close> on a number that may not be finite.\<close>

definition number_toFixed :: "builtins \<Rightarrow> number \<Rightarrow> nat \<Rightarrow> string" where
  "number_toFixed js x n =
     (case x of
        Finite v \<Rightarrow> toFixed js v n
      | PlusInfinity \<Rightarrow> ''Infinity''
      | MinusInfinity \<Rightarrow> ''-Infinity''
      | NaN \<Rightarrow> ''NaN'')"

definition formatDate :: "builtins \<Rightarrow> date \<Rightarrow> error + string" where
  "formatDate js date =
     (case date of InvalidDate \<Rightarrow> Inl RangeError | Date t \<Rightarrow> Inr (toISOString js t))"

text \<open>\<^verbatim>\<open>xs.map(f)\<close> where \<open>f\<close> may throw, and \<^verbatim>\<open>xs.join(sep)\<close>.\<close>

fun map_throwing :: "('a \<Rightarrow> error + 'b) \<Rightarrow> 'a list \<Rightarrow> error + 'b list" where
  "map_throwing f [] = Inr []"
| "map_throwing f (x # xs) =
     (case f x of
        Inl e \<Rightarrow> Inl e
      | Inr y \<Rightarrow> (case map_throwing f xs of Inl e \<Rightarrow> Inl e | Inr ys \<Rightarrow> Inr (y # ys)))"

fun join :: "string \<Rightarrow> string list \<Rightarrow> string" where
  "join sep [] = []"
| "join sep [x] = x"
| "join sep (x # y # zs) = x @ sep @ join sep (y # zs)"

definition newline :: string where
  "newline = [CHR 0x0A]"

definition gpx_attributes :: string where
  \<open>gpx_attributes = ''xmlns="http://www.topografix.com/GPX/1/1" xmlns:xsi="http://www.w3.org/2001/XMLSchema-instance" xsi:schemaLocation="http://www.topografix.com/GPX/1/1 http://www.topografix.com/GPX/1/1/gpx.xsd"''\<close>

definition generateGPXXML_trackPoint :: "builtins \<Rightarrow> GPXPoint \<Rightarrow> error + string" where
  \<open>generateGPXXML_trackPoint js point =
     (let elevationTag =
            (case GPXPoint.elevation point of
               Some e \<Rightarrow> ''<ele>'' @ toString js e @ ''</ele>''
             | None \<Rightarrow> [])
      in case (case GPXPoint.time point of
                 Some t \<Rightarrow> (case formatDate js t of
                              Inl e \<Rightarrow> Inl e
                            | Inr formatted \<Rightarrow> Inr (''<time>'' @ formatted @ ''</time>''))
               | None \<Rightarrow> Inr []) of
           Inl e \<Rightarrow> Inl e
         | Inr timeTag \<Rightarrow>
             Inr (''    <trkpt lat="'' @ toFixed js (lat point) 6 @ ''" lon="'' @
                    toFixed js (lng point) 6 @ ''">'' @ newline @
                  ''      '' @ elevationTag @ newline @
                  ''      '' @ timeTag @ newline @
                  ''    </trkpt>''))\<close>

definition generateGPXXML ::
  "builtins \<Rightarrow> string \<Rightarrow> string \<Rightarrow> string \<Rightarrow> GPXPoint list \<Rightarrow> date \<Rightarrow> error + string" where
  \<open>generateGPXXML js name description activityType points startTime =
     (case map_throwing (generateGPXXML_trackPoint js) points of
        Inl e \<Rightarrow> Inl e
      | Inr rendered \<Rightarrow>
          let trackPoints = join newline rendered
          in case formatDate js startTime of
               Inl e \<Rightarrow> Inl e
             | Inr formatted \<Rightarrow>
                 Inr (''<?xml version="1.0" encoding="UTF-8"?>'' @ newline @
                      ''<gpx version="1.1" creator="GPX Route Creator" '' @ gpx_attributes @ ''>'' @ newline @
                      ''  <metadata>'' @ newline @
                      ''    <name>'' @ escapeXml name @ ''</name>'' @ newline @
                      ''    <desc>'' @ escapeXml description @ ''</desc>'' @ newline @
                      ''    <time>'' @ formatted @ ''</time>'' @ newline @
                      ''  </metadata>'' @ newline @
                      ''  <trk>'' @ newline @
                      ''    <name>'' @ escapeXml name @ ''</name>'' @ newline @
                      ''    <type>'' @ escapeXml activityType @ ''</type>'' @ newline @
                      ''    <trkseg>'' @ newline @
                      trackPoints @ newline @
                      ''    </trkseg>'' @ newline @
                      ''  </trk>'' @ newline @
                      ''</gpx>''))\<close>

definition timestampedPointsToGPX_trackPoint :: "builtins \<Rightarrow> TimestampedPoint \<Rightarrow> error + string" where
  \<open>timestampedPointsToGPX_trackPoint js point =
     (let elevationAttr =
            (case TimestampedPoint.elevation point of
               Some e \<Rightarrow> newline @ ''      <ele>'' @ number_toFixed js e 1 @ ''</ele>''
             | None \<Rightarrow> [])
      in case formatDate js (TimestampedPoint.time point) of
           Inl e \<Rightarrow> Inl e
         | Inr formatted \<Rightarrow>
             Inr (''      <trkpt lat="'' @ toFixed js (lat point) 7 @ ''" lon="'' @
                    toFixed js (lng point) 7 @ ''">'' @ newline @
                  ''        <time>'' @ formatted @ ''</time>'' @ elevationAttr @ newline @
                  ''      </trkpt>''))\<close>

text \<open>
  The arguments \<^verbatim>\<open>description\<close> and \<^verbatim>\<open>activityType\<close> have defaults; the only caller
  passes both. The time of the metadata is \<^verbatim>\<open>points[0]?.time || new Date()\<close>.
\<close>

definition timestampedPointsToGPX ::
  "builtins \<Rightarrow> TimestampedPoint list \<Rightarrow> string \<Rightarrow> string \<Rightarrow> string \<Rightarrow> world \<Rightarrow> error + string" where
  \<open>timestampedPointsToGPX js points name description activityType w =
     (case map_throwing (timestampedPointsToGPX_trackPoint js) points of
        Inl e \<Rightarrow> Inl e
      | Inr rendered \<Rightarrow>
          let trackPoints = join newline rendered;
              metadataTime = (case nth_opt points 0 of
                                Some first \<Rightarrow> TimestampedPoint.time first
                              | None \<Rightarrow> Date (clock w))
          in case formatDate js metadataTime of
               Inl e \<Rightarrow> Inl e
             | Inr formatted \<Rightarrow>
                 Inr (''<?xml version="1.0" encoding="UTF-8"?>'' @ newline @
                      ''<gpx version="1.1" creator="Realistic GPX Generator" '' @ gpx_attributes @ ''>'' @ newline @
                      ''  <metadata>'' @ newline @
                      ''    <name>'' @ escapeXml name @ ''</name>'' @ newline @
                      ''    <desc>'' @ escapeXml description @ ''</desc>'' @ newline @
                      ''    <time>'' @ formatted @ ''</time>'' @ newline @
                      ''  </metadata>'' @ newline @
                      ''  <trk>'' @ newline @
                      ''    <name>'' @ escapeXml name @ ''</name>'' @ newline @
                      ''    <type>'' @ escapeXml activityType @ ''</type>'' @ newline @
                      ''    <trkseg>'' @ newline @
                      trackPoints @ newline @
                      ''    </trkseg>'' @ newline @
                      ''  </trk>'' @ newline @
                      ''</gpx>''))\<close>

definition activityType_string :: "activityType \<Rightarrow> string" where
  "activityType_string a = (case a of Run \<Rightarrow> ''Run'' | Bike \<Rightarrow> ''Bike'' | Walk \<Rightarrow> ''Walk'')"

text \<open>\<^verbatim>\<open>s || d\<close> on an optional string: \<^verbatim>\<open>undefined\<close> and the empty string are falsy.\<close>

definition string_or :: "string option \<Rightarrow> string \<Rightarrow> string" where
  "string_or s d = (case s of None \<Rightarrow> d | Some v \<Rightarrow> if v = [] then d else v)"

text \<open>
  The speed of \<^verbatim>\<open>generateGpx\<close> (its block \<^verbatim>\<open>// Calculate speed\<close>): the average speed
  when it is truthy, else the speed of the pace when that is truthy, else the default of
  the activity.
\<close>

definition generateGpx_speedKmh :: "real option \<Rightarrow> real option \<Rightarrow> activityType \<Rightarrow> real" where
  "generateGpx_speedKmh averageSpeedKmh averagePaceMinPerKm activityType =
     (case averageSpeedKmh of
        Some s \<Rightarrow>
          if s \<noteq> 0 then s
          else (case averagePaceMinPerKm of
                  Some p \<Rightarrow> if p \<noteq> 0 then 60 / p else DEFAULT_SPEEDS activityType
                | None \<Rightarrow> DEFAULT_SPEEDS activityType)
      | None \<Rightarrow>
          (case averagePaceMinPerKm of
             Some p \<Rightarrow> if p \<noteq> 0 then 60 / p else DEFAULT_SPEEDS activityType
           | None \<Rightarrow> DEFAULT_SPEEDS activityType))"

record RealisticTimestampOptions =
  avgSpeedKmh :: real
  startTime :: date
  samplingRateSeconds :: "real option"
  speedVariation :: "real option"
  activityType :: "activityType option"
  addElevation :: "bool option"
  elevationGain :: "real option"
  useRealElevation :: "bool option"

definition generateRealisticTimestamps ::
  "point list \<Rightarrow> 'a RealisticTimestampOptions_scheme \<Rightarrow> world
     \<Rightarrow> (error + TimestampedPoint list) \<times> world" where
  "generateRealisticTimestamps points options w =
     (let avgSpeedKmh = RealisticTimestampOptions.avgSpeedKmh options;
          startTime = RealisticTimestampOptions.startTime options;
          samplingRateSeconds =
            (case RealisticTimestampOptions.samplingRateSeconds options of None \<Rightarrow> 4 | Some x \<Rightarrow> x);
          speedVariation =
            (case RealisticTimestampOptions.speedVariation options of None \<Rightarrow> 0.15 | Some x \<Rightarrow> x);
          activityType =
            (case RealisticTimestampOptions.activityType options of None \<Rightarrow> Run | Some x \<Rightarrow> x);
          addElevation =
            (case RealisticTimestampOptions.addElevation options of None \<Rightarrow> False | Some x \<Rightarrow> x);
          elevationGain =
            (case RealisticTimestampOptions.elevationGain options of None \<Rightarrow> 0 | Some x \<Rightarrow> x);
          useRealElevation =
            (case RealisticTimestampOptions.useRealElevation options of None \<Rightarrow> False | Some x \<Rightarrow> x)
      in if length points < 2 then
           (Inr (map (\<lambda>point. \<lparr>lat = lat point, lng = lng point,
                                 TimestampedPoint.time = startTime,
                                 TimestampedPoint.speed = Some (Finite avgSpeedKmh),
                                 TimestampedPoint.elevation =
                                   (if addElevation then Some (Finite 100) else None)\<rparr>) points), w)
         else
           let (pointsWithElevation, w1) =
                 (if addElevation \<and> useRealElevation then
                    (case addElevationToPoints points w of
                       (Inr enriched, w') \<Rightarrow> (enriched, w')
                     | (Inl error, w') \<Rightarrow>
                         (map (\<lambda>point. \<lparr>lat = lat point, lng = lng point, ele = 100\<rparr>) points, w'))
                  else ([], w));
               currentTime = startTime;
               totalDistance = 0;
               cumulativeElevation = Finite 0;
               totalRouteDistance = calculateRouteDistance points;
               pacingCurve = generatePacingCurve (length points) activityType;
               (elevation0, w2) =
                 (if addElevation then let (e, w') = getStartingElevation w1 in (Some (Finite e), w')
                  else (None, w1));
               first = \<lparr>lat = lat (points ! 0), lng = lng (points ! 0),
                         TimestampedPoint.time = currentTime,
                         TimestampedPoint.speed = Some (Finite avgSpeedKmh),
                         TimestampedPoint.elevation = elevation0\<rparr>;
               (result, currentTime', totalDistance', cumulativeElevation', w3) =
                 foldl (generateRealisticTimestamps_body points avgSpeedKmh samplingRateSeconds
                          speedVariation addElevation elevationGain useRealElevation
                          pointsWithElevation totalRouteDistance pacingCurve)
                   ([first], currentTime, totalDistance, cumulativeElevation, w2)
                   [1..<length points]
           in (Inr result, w3))"

record RealisticGPXOptions = RealisticTimestampOptions +
  name :: string
  description :: "string option"

definition generateRealisticGPX ::
  "builtins \<Rightarrow> point list \<Rightarrow> RealisticGPXOptions \<Rightarrow> world \<Rightarrow> (error + string) \<times> world" where
  "generateRealisticGPX js points options w =
     (case generateRealisticTimestamps points options w of
        (Inl e, w1) \<Rightarrow> (Inl e, w1)
      | (Inr timestampedPoints, w1) \<Rightarrow>
          let activity = activityType_string
                (case RealisticTimestampOptions.activityType options of None \<Rightarrow> Run | Some a \<Rightarrow> a)
          in (timestampedPointsToGPX js timestampedPoints (RealisticGPXOptions.name options)
                (string_or (RealisticGPXOptions.description options) (activity @ '' activity''))
                activity w1, w1))"

section \<open>The entry point\<close>

record GPXGenerationOptions =
  name :: string
  description :: "string option"
  activityType :: activityType
  coordinates :: "coordinate list"
  startTime :: "date option"
  averageSpeedKmh :: "real option"
  averagePaceMinPerKm :: "real option"
  elevationGain :: "real option"
  elevationProfile :: "elevationProfile option"
  addNoise :: "bool option"
  pauseDuration :: "real option"
  useRealisticTiming :: "bool option"
  samplingRateSeconds :: "real option"
  speedVariation :: "real option"
  addElevation :: "bool option"
  useRealElevation :: "bool option"

definition generateGpx ::
  "builtins \<Rightarrow> (coordinate \<Rightarrow> coordinate \<Rightarrow> real) \<Rightarrow> GPXGenerationOptions \<Rightarrow> world
     \<Rightarrow> (error + string) \<times> world" where
  "generateGpx js distance options w =
     (let name = GPXGenerationOptions.name options;
          description = GPXGenerationOptions.description options;
          activityType = GPXGenerationOptions.activityType options;
          coordinates = GPXGenerationOptions.coordinates options;
          startTime = (case GPXGenerationOptions.startTime options of
                         None \<Rightarrow> Date (clock w) | Some t \<Rightarrow> t);
          averageSpeedKmh = GPXGenerationOptions.averageSpeedKmh options;
          averagePaceMinPerKm = GPXGenerationOptions.averagePaceMinPerKm options;
          elevationGain = GPXGenerationOptions.elevationGain options;
          elevationProfile = (case GPXGenerationOptions.elevationProfile options of
                                None \<Rightarrow> Flat | Some p \<Rightarrow> p);
          addNoise = (case GPXGenerationOptions.addNoise options of None \<Rightarrow> True | Some b \<Rightarrow> b);
          pauseDuration = (case GPXGenerationOptions.pauseDuration options of
                             None \<Rightarrow> 0 | Some d \<Rightarrow> d);
          useRealisticTiming = (case GPXGenerationOptions.useRealisticTiming options of
                                  None \<Rightarrow> False | Some b \<Rightarrow> b);
          samplingRateSeconds = (case GPXGenerationOptions.samplingRateSeconds options of
                                   None \<Rightarrow> 4 | Some x \<Rightarrow> x);
          speedVariation = (case GPXGenerationOptions.speedVariation options of
                              None \<Rightarrow> 0.15 | Some x \<Rightarrow> x);
          addElevation = (case GPXGenerationOptions.addElevation options of
                            None \<Rightarrow> False | Some b \<Rightarrow> b);
          useRealElevation = (case GPXGenerationOptions.useRealElevation options of
                                None \<Rightarrow> False | Some b \<Rightarrow> b);
          speedKmh = generateGpx_speedKmh averageSpeedKmh averagePaceMinPerKm activityType
      in if useRealisticTiming then
           let points = map (\<lambda>(lng, lat). \<lparr>lat = lat, lng = lng\<rparr>) coordinates
           in generateRealisticGPX js points
                \<lparr>RealisticTimestampOptions.avgSpeedKmh = speedKmh,
                 RealisticTimestampOptions.startTime = startTime,
                 RealisticTimestampOptions.samplingRateSeconds = Some samplingRateSeconds,
                 RealisticTimestampOptions.speedVariation = Some speedVariation,
                 RealisticTimestampOptions.activityType = Some activityType,
                 RealisticTimestampOptions.addElevation =
                   Some (addElevation \<or> elevationGain \<noteq> None),
                 RealisticTimestampOptions.elevationGain = elevationGain,
                 RealisticTimestampOptions.useRealElevation = Some useRealElevation,
                 RealisticGPXOptions.name = name,
                 RealisticGPXOptions.description =
                   Some (string_or description (activityType_string activityType @ '' activity''))\<rparr>
                w
         else
           let (gpxPoints, w1) = generateTrackPoints distance coordinates startTime speedKmh
                                   elevationGain elevationProfile addNoise pauseDuration w
           in (generateGPXXML js name
                 (string_or description (activityType_string activityType @ '' activity''))
                 (activityType_string activityType) gpxPoints startTime, w1))"

section \<open>Notions used in the properties\<close>

text \<open>
  A text is escaped when it holds none of the characters \<open><\<close>, \<open>>\<close>, double quote and
  single quote, and each \<open>&\<close> in it begins one of the five entities.
\<close>

definition xml_entities :: "string list" where
  "xml_entities = [''&amp;'', ''&lt;'', ''&gt;'', ''&quot;'', ''&apos;'']"

fun escaped :: "string \<Rightarrow> bool" where
  "escaped [] = True"
| "escaped (c # cs) =
     (c \<notin> {CHR ''<'', CHR ''>'', CHR 0x22, CHR 0x27} \<and>
      (c = CHR ''&'' \<longrightarrow> (\<exists>e \<in> set xml_entities. prefix e (c # cs))) \<and>
      escaped cs)"

text \<open>
  The entity of each of the five metacharacters \<open>&\<close>, \<open><\<close>, \<open>>\<close>, double quote (0x22) and
  single quote (0x27); any other character stands for itself.
\<close>

definition escapeXml_char :: "char \<Rightarrow> string" where
  "escapeXml_char c =
     (if c = CHR ''&'' then ''&amp;''
      else if c = CHR ''<'' then ''&lt;''
      else if c = CHR ''>'' then ''&gt;''
      else if c = CHR 0x22 then ''&quot;''
      else if c = CHR 0x27 then ''&apos;''
      else [c])"




text \<open>
  What holds of the variables of the loop of \<^verbatim>\<open>generateTrackPoints\<close> before pass \<open>k\<close>:
  \<open>k\<close> points have been pushed, each with an elevation when elevations are tracked, and
  the draws still to come are draws of the initial world.
\<close>

definition track_invariant :: "bool \<Rightarrow> world \<Rightarrow> nat \<Rightarrow> trackState \<Rightarrow> bool" where
  "track_invariant tracked w0 k st =
     (case st of (points, currentTime, totalDistance, w) \<Rightarrow>
        length points = k \<and>
        (tracked \<longrightarrow> (\<forall>p \<in> set points. GPXPoint.elevation p \<noteq> None)) \<and>
        sset (random w) \<subseteq> sset (random w0))"

section \<open>Example inputs\<close>

text \<open>
  A world in which every draw of \<^verbatim>\<open>Math.random()\<close> is 1/4 and every \<^verbatim>\<open>fetch\<close> is
  rejected.
\<close>

definition steady_world :: world where
  "steady_world = \<lparr>random = sconst (1 / 4), network = sconst FetchRejected, clock = 0\<rparr>"

text \<open>A world in which every draw of \<^verbatim>\<open>Math.random()\<close> is 0.\<close>

definition zero_draw_world :: world where
  "zero_draw_world = \<lparr>random = sconst 0, network = sconst FetchRejected, clock = 0\<rparr>"

text \<open>Formatting functions that print every number as \<open>0\<close> and every date as the epoch.\<close>

definition plain_builtins :: builtins where
  "plain_builtins = \<lparr>toFixed = (\<lambda>x n. ''0''), toString = (\<lambda>x. ''0''),
                      toISOString = (\<lambda>t. ''1970-01-01T00:00:00.000Z'')\<rparr>"

text \<open>A distance function under which every segment is one kilometre long.\<close>

definition unit_distance :: "coordinate \<Rightarrow> coordinate \<Rightarrow> real" where
  "unit_distance a b = 1"

text \<open>
  The options of the test \<^verbatim>\<open>should handle single coordinate\<close>: a name, an activity and
  one coordinate, neither speed nor pace.
\<close>

definition single_point_options :: GPXGenerationOptions where
  "single_point_options =
     \<lparr>GPXGenerationOptions.name = ''Single Point'',
      GPXGenerationOptions.description = None,
      GPXGenerationOptions.activityType = Run,
      GPXGenerationOptions.coordinates = [(- 73.9857, 40.7829)],
      GPXGenerationOptions.startTime = None,
      GPXGenerationOptions.averageSpeedKmh = None,
      GPXGenerationOptions.averagePaceMinPerKm = None,
      GPXGenerationOptions.elevationGain = None,
      GPXGenerationOptions.elevationProfile = None,
      GPXGenerationOptions.addNoise = None,
      GPXGenerationOptions.pauseDuration = None,
      GPXGenerationOptions.useRealisticTiming = None,
      GPXGenerationOptions.samplingRateSeconds = None,
      GPXGenerationOptions.speedVariation = None,
      GPXGenerationOptions.addElevation = None,
      GPXGenerationOptions.useRealElevation = None\<rparr>"

text \<open>
  A route that stays on one point, with a start time at the epoch: sampled three times a
  second, with simulated elevations, and with elevations looked up.
\<close>

definition repeated_point :: "point list" where
  "repeated_point = [\<lparr>lat = 0, lng = 0\<rparr>, \<lparr>lat = 0, lng = 0\<rparr>]"


definition simulated_elevation_options :: RealisticTimestampOptions where
  "simulated_elevation_options =
     \<lparr>RealisticTimestampOptions.avgSpeedKmh = 10,
      RealisticTimestampOptions.startTime = Date 0,
      RealisticTimestampOptions.samplingRateSeconds = None,
      RealisticTimestampOptions.speedVariation = None,
      RealisticTimestampOptions.activityType = None,
      RealisticTimestampOptions.addElevation = Some True,
      RealisticTimestampOptions.elevationGain = None,
      RealisticTimestampOptions.useRealElevation = None\<rparr>"


text \<open>A route of three coordinates.\<close>

definition three_coordinates :: "coordinate list" where
  "three_coordinates = [(0, 0), (0, 1), (0, 2)]"

section \<open>Properties\<close>

subsection \<open>Point count\<close>

lemma generateTrackPoints_body_points:
  "\<exists>p. fst (generateTrackPoints_body distance cs speedKmh gain profile noise pause routeKm cumulative st i)
        = fst st @ [p]"
  by (cases st)
     (simp add: generateTrackPoints_body_def Let_def split_beta)

lemma generateTrackPoints_loop_length:
  "length (fst (foldl (generateTrackPoints_body distance cs speedKmh gain profile noise pause routeKm
                         cumulative) st is)) = length (fst st) + length is"
proof (induction "is" arbitrary: st)
  case Nil
  then show ?case by simp
next
  case (Cons i "is")
  obtain p where
    "fst (generateTrackPoints_body distance cs speedKmh gain profile noise pause routeKm cumulative st i)
       = fst st @ [p]"
    using generateTrackPoints_body_points by blast
  then show ?case by (simp add: Cons.IH)
qed

lemma generateTrackPoints_length:
  "length (fst (generateTrackPoints distance cs start speedKmh gain profile noise pause w)) = length cs"
proof (cases "length cs < 2")
  case True
  then show ?thesis by (simp add: generateTrackPoints_def)
next
  case False
  have "length (fst (foldl (generateTrackPoints_body distance cs speedKmh gain profile noise pause
            (calculateCoordinatesDistance distance cs) 0) ([], start, 0, w) [0..<length cs]))
        = length cs"
    by (simp add: generateTrackPoints_loop_length)
  with False show ?thesis
    by (simp add: generateTrackPoints_def Let_def split_beta)
qed

lemma generateRealisticTimestamps_body_result:
  "\<exists>p. fst (generateRealisticTimestamps_body pts avg rate var addEle gain useReal pwe routeKm curve st i)
        = fst st @ [p]"
  by (cases st)
     (simp add: generateRealisticTimestamps_body_def Let_def split_beta)

lemma generateRealisticTimestamps_loop_length:
  "length (fst (foldl (generateRealisticTimestamps_body pts avg rate var addEle gain useReal pwe routeKm
                         curve) st is)) = length (fst st) + length is"
proof (induction "is" arbitrary: st)
  case Nil
  then show ?case by simp
next
  case (Cons i "is")
  obtain p where
    "fst (generateRealisticTimestamps_body pts avg rate var addEle gain useReal pwe routeKm curve st i)
       = fst st @ [p]"
    using generateRealisticTimestamps_body_result by blast
  then show ?case by (simp add: Cons.IH)
qed

lemma generateRealisticTimestamps_length:
  "\<exists>ps. fst (generateRealisticTimestamps pts opts w) = Inr ps \<and> length ps = length pts"
proof (cases "length pts < 2")
  case True
  then show ?thesis by (simp add: generateRealisticTimestamps_def Let_def)
next
  case False
  then have "Suc (length pts - Suc 0) = length pts" by simp
  with False show ?thesis
    by (simp add: generateRealisticTimestamps_def Let_def split_beta
        generateRealisticTimestamps_loop_length)
qed

text \<open>
  C1. The sequences returned by \<^verbatim>\<open>generateTrackPoints\<close> and by
  \<^verbatim>\<open>generateRealisticTimestamps\<close> have one point per input coordinate, for every input,
  the lists of 0 and 1 coordinates included.
\<close>

theorem point_count_preservation:
  "length (fst (generateTrackPoints distance cs start speedKmh gain profile noise pause w)) = length cs \<and>
   (\<exists>ps. fst (generateRealisticTimestamps pts opts w') = Inr ps \<and> length ps = length pts)"
  using generateTrackPoints_length generateRealisticTimestamps_length by blast

subsection \<open>Timestamps\<close>







text \<open>
  The clamp of \<^verbatim>\<open>addSpeedVariation\<close>: \<^verbatim>\<open>Math.max(minSpeed, Math.min(maxSpeed, x))\<close> is
  between the two bounds, unless \<open>x\<close> is \<^verbatim>\<open>NaN\<close>, which goes through.
\<close>

lemma clamp_cases:
  assumes "a \<le> b"
  shows "Math_max (Finite a) (Math_min (Finite b) x) = NaN \<or>
         (\<exists>v. Math_max (Finite a) (Math_min (Finite b) x) = Finite v \<and> a \<le> v \<and> v \<le> b)"
  using assms by (cases x) auto

lemma addSpeedVariation_bounds:
  assumes "0 < baseSpeed"
  shows "fst (addSpeedVariation baseSpeed variationFactor w) = NaN \<or>
         (\<exists>v. fst (addSpeedVariation baseSpeed variationFactor w) = Finite v \<and>
               0.2 * baseSpeed \<le> v \<and> v \<le> 1.8 * baseSpeed)"
proof -
  have "baseSpeed * 0.2 \<le> baseSpeed * 1.8" using assms by simp
  from clamp_cases [OF this] show ?thesis
    by (simp add: addSpeedVariation_def Let_def split_beta mult.commute)
qed

text \<open>When the first draw is above 0 (and at most 1) the speed is a finite number.\<close>

lemma addSpeedVariation_finite:
  assumes "0 < shd (random w)" and "shd (random w) \<le> 1"
  shows "fst (addSpeedVariation baseSpeed variationFactor w) =
           Finite (max (baseSpeed * 0.2) (min (baseSpeed * 1.8)
             (baseSpeed * (1 + sqrt (- 2 * ln (shd (random w))) *
                cos (2 * pi * shd (stl (random w))) * variationFactor))))"
proof -
  have "ln (shd (random w)) \<le> 0" using assms by simp
  then have "\<not> - 2 * ln (shd (random w)) < 0" by simp
  then show ?thesis
    using assms(1)
    by (simp add: addSpeedVariation_def Math_random_def Let_def)
qed











lemma upt_1_2: "[1..<2] = [1]"
  by (simp add: upt_conv_Cons)

lemma haversineDistance_same: "haversineDistance x y x y = 0"
  by (simp add: haversineDistance_def Math_atan2_def)




subsection \<open>Elevation floor\<close>

lemma upt_0_2: "[0..<2] = [0, 1]"
  by (simp add: upt_conv_Cons)

lemma calculateRealisticElevation_floor:
  "fst (calculateRealisticElevation currentElevation progressRatio gain routeKm w) = NaN \<or>
   fst (calculateRealisticElevation currentElevation progressRatio gain routeKm w) = PlusInfinity \<or>
   (\<exists>v. fst (calculateRealisticElevation currentElevation progressRatio gain routeKm w) = Finite v \<and>
         0 \<le> v)"
proof -
  have "Math_max (Finite 0) x = NaN \<or> Math_max (Finite 0) x = PlusInfinity \<or>
        (\<exists>v. Math_max (Finite 0) x = Finite v \<and> 0 \<le> v)" for x
    by (cases x) auto
  then show ?thesis
    by (simp add: calculateRealisticElevation_def Let_def split_beta)
qed

lemma getStartingElevation_floor:
  "0 \<le> shd (random w) \<Longrightarrow> 0 \<le> fst (getStartingElevation w)"
  by (simp add: getStartingElevation_def Math_random_def Let_def)

text \<open>
  On a route of length zero the progress ratio is \<open>0 / 0\<close>, and the smoothed elevation of
  the second point is \<^verbatim>\<open>NaN\<close>.
\<close>

lemma calculateRealisticElevation_zero_route:
  "TimestampedPoint.elevation
     (projr (fst (generateRealisticTimestamps repeated_point simulated_elevation_options
                    steady_world)) ! 1) = Some NaN"
  by (simp add: generateRealisticTimestamps_def generateRealisticTimestamps_body_def
      repeated_point_def simulated_elevation_options_def upt_1_2 upt_conv_Cons Let_def split_beta
      haversineDistance_same calculateRouteDistance_def calculateRealisticElevation_def)

text \<open>
  C3. Every simulated elevation is at least 0. The starting elevation of the realistic
  path is, and its smoothed elevation is at least 0 whenever it is a number, as the
  lemmas above say. \<^verbatim>\<open>calculateElevation\<close> has no floor, and \<^verbatim>\<open>generateTrackPoints\<close>
  calls it with base elevation 0: on a route of two coordinates with an elevation gain of
  100 on flat terrain, a first draw of 1/4 gives the first point the elevation -2.
\<close>

theorem generateTrackPoints_negative_elevation:
  "GPXPoint.elevation
     (fst (generateTrackPoints unit_distance [(0, 0), (0, 1)] (Date 0) 10 (Some 100) Flat True 0
             steady_world) ! 0) = Some (- 2)"
  by (simp add: generateTrackPoints_def generateTrackPoints_body_def
      generateTrackPoints_elevation_def generateTrackPoints_speed_def upt_0_2 Let_def
      calculateElevation_def generateTrackPoints_pause_def Math_random_def steady_world_def
      num_or_def
      ELEVATION_PROFILES_def Math_round_def)

subsection \<open>Missing speed and pace\<close>

text \<open>
  C4 says that \<^verbatim>\<open>generateGpx\<close> rejects options that give neither a speed nor a pace. It
  does not: on the options of the single-coordinate test it returns a document, at the
  speed of 10 km/h.
\<close>

theorem generateGpx_no_speed_counterexample:
  "GPXGenerationOptions.averageSpeedKmh single_point_options = None \<and>
   GPXGenerationOptions.averagePaceMinPerKm single_point_options = None \<and>
   \<not> isl (fst (generateGpx plain_builtins unit_distance single_point_options steady_world)) \<and>
   generateGpx_speedKmh (GPXGenerationOptions.averageSpeedKmh single_point_options)
     (GPXGenerationOptions.averagePaceMinPerKm single_point_options)
     (GPXGenerationOptions.activityType single_point_options) = 10"
  by (simp add: single_point_options_def generateGpx_def generateTrackPoints_def
      generateGPXXML_def generateGPXXML_trackPoint_def formatDate_def Let_def steady_world_def
      generateGpx_speedKmh_def DEFAULT_SPEEDS_def)

lemma DEFAULT_SPEEDS_nonzero: "DEFAULT_SPEEDS a \<noteq> 0"
  by (cases a) (simp_all add: DEFAULT_SPEEDS_def)

text \<open>
  C4, amended. When neither the average speed nor the average pace is given (absent or
  0), \<^verbatim>\<open>generateGpx\<close> takes the default speed of the activity, 10 km/h for a run, 25
  for a bike ride and 5 for a walk, and returns what it returns when that speed is given
  as the average speed.
\<close>

theorem generateGpx_default_speed:
  assumes "GPXGenerationOptions.averageSpeedKmh opts \<in> {None, Some 0}"
    and "GPXGenerationOptions.averagePaceMinPerKm opts \<in> {None, Some 0}"
  shows "generateGpx_speedKmh (GPXGenerationOptions.averageSpeedKmh opts)
           (GPXGenerationOptions.averagePaceMinPerKm opts) (GPXGenerationOptions.activityType opts)
         = DEFAULT_SPEEDS (GPXGenerationOptions.activityType opts) \<and>
         DEFAULT_SPEEDS Run = 10 \<and> DEFAULT_SPEEDS Bike = 25 \<and> DEFAULT_SPEEDS Walk = 5 \<and>
         generateGpx js d opts w =
           generateGpx js d
             (opts\<lparr>GPXGenerationOptions.averageSpeedKmh :=
                      Some (DEFAULT_SPEEDS (GPXGenerationOptions.activityType opts))\<rparr>) w"
proof -
  have s: "generateGpx_speedKmh (GPXGenerationOptions.averageSpeedKmh opts)
           (GPXGenerationOptions.averagePaceMinPerKm opts) (GPXGenerationOptions.activityType opts)
         = DEFAULT_SPEEDS (GPXGenerationOptions.activityType opts)"
    using assms by (auto simp: generateGpx_speedKmh_def)
  have s': "generateGpx_speedKmh (Some (DEFAULT_SPEEDS (GPXGenerationOptions.activityType opts)))
           (GPXGenerationOptions.averagePaceMinPerKm opts) (GPXGenerationOptions.activityType opts)
         = DEFAULT_SPEEDS (GPXGenerationOptions.activityType opts)"
    by (simp add: generateGpx_speedKmh_def DEFAULT_SPEEDS_nonzero)
  have g: "generateGpx js d opts w =
           generateGpx js d
             (opts\<lparr>GPXGenerationOptions.averageSpeedKmh :=
                      Some (DEFAULT_SPEEDS (GPXGenerationOptions.activityType opts))\<rparr>) w"
    by (simp add: s s' generateGpx_def)
  have "DEFAULT_SPEEDS Run = 10" "DEFAULT_SPEEDS Bike = 25" "DEFAULT_SPEEDS Walk = 5"
    by (simp_all add: DEFAULT_SPEEDS_def)
  with s g show ?thesis by blast
qed

theorem generateGpx_default_speed_witness:
  "GPXGenerationOptions.averageSpeedKmh single_point_options \<in> {None, Some 0} \<and>
   GPXGenerationOptions.averagePaceMinPerKm single_point_options \<in> {None, Some 0} \<and>
   generateGpx_speedKmh (GPXGenerationOptions.averageSpeedKmh single_point_options)
     (GPXGenerationOptions.averagePaceMinPerKm single_point_options)
     (GPXGenerationOptions.activityType single_point_options) = 10"
proof -
  have a: "GPXGenerationOptions.averageSpeedKmh single_point_options \<in> {None, Some 0}"
    and b: "GPXGenerationOptions.averagePaceMinPerKm single_point_options \<in> {None, Some 0}"
    and c: "GPXGenerationOptions.activityType single_point_options = Run"
    by (simp_all add: single_point_options_def)
  from generateGpx_default_speed [OF a b] a b c show ?thesis by simp
qed

subsection \<open>Speed variation\<close>

text \<open>
  For a base speed above zero and a first draw above 0, the speed is a finite number
  between 0.2 and 1.8 times the base speed.
\<close>

lemma addSpeedVariation_positive_draw:
  assumes "0 < baseSpeed" and "0 < shd (random w)" and "shd (random w) \<le> 1"
  shows "\<exists>v. fst (addSpeedVariation baseSpeed variationFactor w) = Finite v \<and>
             0.2 * baseSpeed \<le> v \<and> v \<le> 1.8 * baseSpeed"
  using addSpeedVariation_bounds [OF assms(1), of variationFactor w]
    addSpeedVariation_finite [OF assms(2,3), of baseSpeed variationFactor]
  by auto

text \<open>
  C5 says that for every base speed above zero, every variation factor and every pair of
  draws, the speed returned by \<^verbatim>\<open>addSpeedVariation\<close> lies between 0.2 and 1.8 times the
  base speed; the function says so itself (\<^verbatim>\<open>Ensure speed doesn't go below 20% or above
  180% of base speed\<close>). \<^verbatim>\<open>Math.random()\<close> may return 0. Then \<^verbatim>\<open>Math.log(u1)\<close> is
  \<^verbatim>\<open>-Infinity\<close> and the Gaussian sample is infinite; with a variation factor of 0 the
  variation is \<^verbatim>\<open>Infinity * 0\<close>, that is \<^verbatim>\<open>NaN\<close>, and \<^verbatim>\<open>Math.min\<close> and \<^verbatim>\<open>Math.max\<close>
  hand \<^verbatim>\<open>NaN\<close> on. At base speed 10, variation factor 0 and draws of 0 the speed returned
  is \<^verbatim>\<open>NaN\<close>, which is within no bounds.
\<close>

theorem addSpeedVariation_zero_draw:
  "fst (addSpeedVariation 10 0 zero_draw_world) = NaN"
  by (simp add: addSpeedVariation_def Math_random_def zero_draw_world_def Let_def)

subsection \<open>Grade adjustment\<close>

text \<open>
  C6. The multiplier of \<^verbatim>\<open>calculateSpeedAdjustmentForElevation\<close> follows the policy
  table on the gradient \<open>(elevationChange / 1000) / distance\<close>: 0.6 above 0.05, 0.8 from
  0.02 (excluded) to 0.05 (included), 1.1 from -0.05 (included) to -0.02 (excluded), 1.2
  below -0.05, and 1 otherwise; a segment of distance zero gives 1.
\<close>

theorem calculateSpeedAdjustmentForElevation_policy:
  "(d = 0 \<longrightarrow> calculateSpeedAdjustmentForElevation elevationChange d = 1) \<and>
   (d \<noteq> 0 \<longrightarrow>
      (let gradient = (elevationChange / 1000) / d in
        (0.05 < gradient \<longrightarrow>
           calculateSpeedAdjustmentForElevation elevationChange d = 0.6) \<and>
        (0.02 < gradient \<and> gradient \<le> 0.05 \<longrightarrow>
           calculateSpeedAdjustmentForElevation elevationChange d = 0.8) \<and>
        (- 0.05 \<le> gradient \<and> gradient < - 0.02 \<longrightarrow>
           calculateSpeedAdjustmentForElevation elevationChange d = 1.1) \<and>
        (gradient < - 0.05 \<longrightarrow>
           calculateSpeedAdjustmentForElevation elevationChange d = 1.2) \<and>
        (- 0.02 \<le> gradient \<and> gradient \<le> 0.02 \<longrightarrow>
           calculateSpeedAdjustmentForElevation elevationChange d = 1)))"
  by (simp add: calculateSpeedAdjustmentForElevation_def Let_def)

theorem calculateSpeedAdjustmentForElevation_policy_witness:
  "calculateSpeedAdjustmentForElevation 100 0 = 1 \<and>
   calculateSpeedAdjustmentForElevation 100 1 = 0.6 \<and>
   calculateSpeedAdjustmentForElevation 30 1 = 0.8 \<and>
   calculateSpeedAdjustmentForElevation 50 1 = 0.8 \<and>
   calculateSpeedAdjustmentForElevation (- 30) 1 = 1.1 \<and>
   calculateSpeedAdjustmentForElevation (- 50) 1 = 1.1 \<and>
   calculateSpeedAdjustmentForElevation (- 100) 1 = 1.2 \<and>
   calculateSpeedAdjustmentForElevation 20 1 = 1 \<and>
   calculateSpeedAdjustmentForElevation (- 20) 1 = 1"
  using calculateSpeedAdjustmentForElevation_policy [of 0 100]
        calculateSpeedAdjustmentForElevation_policy [of 1 100]
        calculateSpeedAdjustmentForElevation_policy [of 1 30]
        calculateSpeedAdjustmentForElevation_policy [of 1 50]
        calculateSpeedAdjustmentForElevation_policy [of 1 "- 30"]
        calculateSpeedAdjustmentForElevation_policy [of 1 "- 50"]
        calculateSpeedAdjustmentForElevation_policy [of 1 "- 100"]
        calculateSpeedAdjustmentForElevation_policy [of 1 20]
        calculateSpeedAdjustmentForElevation_policy [of 1 "- 20"]
  by (simp add: Let_def)

subsection \<open>Pacing curve\<close>

lemma generatePacingCurve_peak_phase:
  assumes "i < pointCount"
    and "0.2 \<le> real i / (real pointCount - 1)"
    and "real i / (real pointCount - 1) < 0.7"
  shows "peak (patterns a) - 0.03 \<le> generatePacingCurve pointCount a ! i \<and>
         generatePacingCurve pointCount a ! i \<le> peak (patterns a) + 0.03"
proof -
  define x where "x = ((real i / (real pointCount - 1) - 0.2) / 0.5) * pi * 2"
  have v: "generatePacingCurve pointCount a ! i = peak (patterns a) + sin x * 0.03"
    using assms
    by (simp add: generatePacingCurve_def generatePacingCurve_multiplier_def Let_def x_def)
  have "- 1 \<le> sin x" "sin x \<le> 1" by simp_all
  then show ?thesis unfolding v by simp
qed

text \<open>
  C7. \<^verbatim>\<open>generatePacingCurve\<close> returns one multiplier per point; for a run of 11 points
  the first is the warmup floor 0.85, the last is the fatigue floor 0.92, and every
  multiplier whose progress \<open>i / 10\<close> is in the peak phase, from 0.2 to 0.7 (excluded), is
  within 0.03 of the peak 1.08.
\<close>

theorem generatePacingCurve_shape:
  "length (generatePacingCurve pointCount a) = pointCount \<and>
   generatePacingCurve 11 Run ! 0 = 0.85 \<and>
   generatePacingCurve 11 Run ! 10 = 0.92 \<and>
   (\<forall>i<11. 0.2 \<le> real i / 10 \<and> real i / 10 < 0.7 \<longrightarrow>
      1.08 - 0.03 \<le> generatePacingCurve 11 Run ! i \<and>
      generatePacingCurve 11 Run ! i \<le> 1.08 + 0.03)"
proof (intro conjI allI impI)
  show "length (generatePacingCurve pointCount a) = pointCount"
    by (simp add: generatePacingCurve_def)
  show "generatePacingCurve 11 Run ! 0 = 0.85"
    by (simp add: generatePacingCurve_def generatePacingCurve_multiplier_def patterns_def Let_def)
  show "generatePacingCurve 11 Run ! 10 = 0.92"
    by (simp add: generatePacingCurve_def generatePacingCurve_multiplier_def patterns_def Let_def)
next
  fix i :: nat
  assume i: "i < 11" and p: "0.2 \<le> real i / 10 \<and> real i / 10 < 0.7"
  from generatePacingCurve_peak_phase [of i 11 Run] i p
  have "peak (patterns Run) - 0.03 \<le> generatePacingCurve 11 Run ! i \<and>
        generatePacingCurve 11 Run ! i \<le> peak (patterns Run) + 0.03"
    by simp
  then show "1.08 - 0.03 \<le> generatePacingCurve 11 Run ! i"
    and "generatePacingCurve 11 Run ! i \<le> 1.08 + 0.03"
    by (simp_all add: patterns_def)
qed

theorem generatePacingCurve_shape_witness:
  "(5::nat) < 11 \<and> 0.2 \<le> real 5 / 10 \<and> real 5 / 10 < (0.7::real) \<and>
   1.08 - 0.03 \<le> generatePacingCurve 11 Run ! 5 \<and>
   generatePacingCurve 11 Run ! 5 \<le> 1.08 + 0.03"
  using generatePacingCurve_shape [of 11 Run] by simp

subsection \<open>Elevation fallback\<close>











subsection \<open>Grade adjustment on the legacy path\<close>

lemma Math_random_sset:
  "fst (Math_random w) \<in> sset (random w)" "sset (random (snd (Math_random w))) \<subseteq> sset (random w)"
  by (auto simp: Math_random_def shd_sset dest: stl_sset)

lemma generateTrackPoints_elevation_props:
  "sset (random (snd (generateTrackPoints_elevation i n cur tot g prof base w))) \<subseteq> sset (random w)"
  "g \<noteq> None \<or> prof \<noteq> Flat \<Longrightarrow> fst (generateTrackPoints_elevation i n cur tot g prof base w) \<noteq> None"
  using Math_random_sset(2) [of w]
  by (simp_all add: generateTrackPoints_elevation_def calculateElevation_def Let_def split_beta)

lemma generateTrackPoints_speed_sset:
  "sset (random (snd (generateTrackPoints_speed speedKmh noise e pe d w))) \<subseteq> sset (random w)"
  using Math_random_sset(2) [of w]
  by (simp add: generateTrackPoints_speed_def Let_def split_beta split: option.splits)

lemma generateTrackPoints_speed_grade:
  "\<exists>r \<in> sset (random w).
     fst (generateTrackPoints_speed speedKmh True (Some e) (Some pe) d w) =
       speedKmh * (0.8 + r * 0.4) * calculateSpeedAdjustmentForElevation (e - pe) d"
  using Math_random_sset(1) [of w]
  by (auto simp: generateTrackPoints_speed_def Let_def split_beta)

lemma generateTrackPoints_pause_props:
  "sset (random (snd (generateTrackPoints_pause pause w))) \<subseteq> sset (random w)"
  "pause \<le> 0 \<Longrightarrow> fst (generateTrackPoints_pause pause w) = 0"
  "fst (generateTrackPoints_pause pause w) = 0 \<or>
     (\<exists>r \<in> sset (random w). fst (generateTrackPoints_pause pause w) = pause * 1000 * (0.5 + r * 0.5))"
proof -
  show "sset (random (snd (generateTrackPoints_pause pause w))) \<subseteq> sset (random w)"
    using Math_random_sset(2) [of w] Math_random_sset(2) [of "snd (Math_random w)"]
    by (auto simp: generateTrackPoints_pause_def Let_def split_beta)
  show "pause \<le> 0 \<Longrightarrow> fst (generateTrackPoints_pause pause w) = 0"
    by (simp add: generateTrackPoints_pause_def)
  show "fst (generateTrackPoints_pause pause w) = 0 \<or>
     (\<exists>r \<in> sset (random w). fst (generateTrackPoints_pause pause w) = pause * 1000 * (0.5 + r * 0.5))"
    using Math_random_sset(1) [of "snd (Math_random w)"] Math_random_sset(2) [of w]
    by (auto simp: generateTrackPoints_pause_def Let_def split_beta)
qed

text \<open>One pass of the body, on a state that satisfies the invariant.\<close>

lemma generateTrackPoints_body_step:
  fixes gain :: "real option"
  assumes inv: "track_invariant (gain \<noteq> None \<or> profile \<noteq> Flat) w0 k (points, ct, td, w)"
  shows "\<exists>p ct' td' w'.
           generateTrackPoints_body distance cs speedKmh gain profile noise pause routeKm cumulative
             (points, ct, td, w) k = (points @ [p], ct', td', w') \<and>
           GPXPoint.time p = Some ct \<and>
           track_invariant (gain \<noteq> None \<or> profile \<noteq> Flat) w0 (Suc k) (points @ [p], ct', td', w') \<and>
           (noise \<and> 0 < k \<and> Suc k < length cs \<and> (gain \<noteq> None \<or> profile \<noteq> Flat) \<longrightarrow>
              (\<exists>r \<in> sset (random w0). \<exists>pauseMs e pe.
                 GPXPoint.elevation p = Some e \<and>
                 GPXPoint.elevation (points ! (k - 1)) = Some pe \<and>
                 (pause \<le> 0 \<longrightarrow> pauseMs = 0) \<and>
                 (pauseMs = 0 \<or> (\<exists>r' \<in> sset (random w0). pauseMs = pause * 1000 * (0.5 + r' * 0.5))) \<and>
                 ct' = dateAfter ct
                   (calculateSegmentDistance distance (cs ! k) (cs ! Suc k) /
                      (speedKmh * (0.8 + r * 0.4) *
                         calculateSpeedAdjustmentForElevation (e - pe)
                           (calculateSegmentDistance distance (cs ! k) (cs ! Suc k)))
                      * 3600 * 1000 + pauseMs)))"
proof -
  define tracked where "tracked = (gain \<noteq> None \<or> profile \<noteq> Flat)"
  define ew where "ew = generateTrackPoints_elevation k (length cs) td routeKm gain profile cumulative w"
  define p where "p = \<lparr>lat = snd (cs ! k), lng = fst (cs ! k), GPXPoint.elevation = fst ew,
                        GPXPoint.time = Some ct\<rparr>"
  define d where "d = calculateSegmentDistance distance (cs ! k) (cs ! Suc k)"
  define previous where "previous = (if k = 0 then None
                           else case nth_opt (points @ [p]) (k - 1) of
                                  None \<Rightarrow> None
                                | Some q \<Rightarrow> GPXPoint.elevation q)"
  define sw where "sw = generateTrackPoints_speed speedKmh noise (fst ew) previous d (snd ew)"
  define pw where "pw = generateTrackPoints_pause pause (snd sw)"
  define ct' where "ct' = (if int k < int (length cs) - 1
                           then dateAfter ct (d / fst sw * 3600 * 1000 + fst pw) else ct)"
  define td' where "td' = (if int k < int (length cs) - 1 then td + d else td)"
  define w' where "w' = (if int k < int (length cs) - 1 then snd pw else snd ew)"
  from inv have len: "length points = k"
    and ele: "tracked \<Longrightarrow> \<forall>q \<in> set points. GPXPoint.elevation q \<noteq> None"
    and w: "sset (random w) \<subseteq> sset (random w0)"
    by (simp_all add: track_invariant_def tracked_def)
  have ew: "sset (random (snd ew)) \<subseteq> sset (random w0)" "tracked \<Longrightarrow> fst ew \<noteq> None"
    using generateTrackPoints_elevation_props(1) [of k "length cs" td routeKm gain profile cumulative w]
      generateTrackPoints_elevation_props(2) [of gain profile k "length cs" td routeKm cumulative w] w
    by (auto simp: ew_def tracked_def)
  have sw: "sset (random (snd sw)) \<subseteq> sset (random w0)"
    using generateTrackPoints_speed_sset [of speedKmh noise "fst ew" previous d "snd ew"] ew(1)
    by (auto simp: sw_def)
  have pw: "sset (random (snd pw)) \<subseteq> sset (random w0)"
    using generateTrackPoints_pause_props(1) [of pause "snd sw"] sw
    by (auto simp: pw_def)
  have body: "generateTrackPoints_body distance cs speedKmh gain profile noise pause routeKm
                cumulative (points, ct, td, w) k = (points @ [p], ct', td', w')"
    by (simp add: generateTrackPoints_body_def Let_def split_beta p_def ew_def d_def
        previous_def sw_def pw_def ct'_def td'_def w'_def)
  have time: "GPXPoint.time p = Some ct" by (simp add: p_def)
  have inv': "track_invariant tracked w0 (Suc k) (points @ [p], ct', td', w')"
    using len ele ew pw by (auto simp: track_invariant_def p_def w'_def)
  have grade: "\<exists>r \<in> sset (random w0). \<exists>pauseMs e pe.
                 GPXPoint.elevation p = Some e \<and>
                 GPXPoint.elevation (points ! (k - 1)) = Some pe \<and>
                 (pause \<le> 0 \<longrightarrow> pauseMs = 0) \<and>
                 (pauseMs = 0 \<or> (\<exists>r' \<in> sset (random w0). pauseMs = pause * 1000 * (0.5 + r' * 0.5))) \<and>
                 ct' = dateAfter ct
                   (d / (speedKmh * (0.8 + r * 0.4) * calculateSpeedAdjustmentForElevation (e - pe) d)
                      * 3600 * 1000 + pauseMs)"
    if noise and k: "0 < k" "Suc k < length cs" and tracked
  proof -
    obtain e where e: "fst ew = Some e" using ew(2) [OF \<open>tracked\<close>] by blast
    have "points ! (k - 1) \<in> set points" using k len by simp
    then obtain pe where pe: "GPXPoint.elevation (points ! (k - 1)) = Some pe"
      using ele [OF \<open>tracked\<close>] by blast
    have prev: "previous = Some pe"
      using k len pe by (simp add: previous_def nth_opt_def nth_append)
    obtain r where r: "r \<in> sset (random (snd ew))"
      and speed: "fst sw = speedKmh * (0.8 + r * 0.4) * calculateSpeedAdjustmentForElevation (e - pe) d"
      using generateTrackPoints_speed_grade [of "snd ew" speedKmh e pe d] \<open>noise\<close>
      by (auto simp: sw_def e prev)
    have "ct' = dateAfter ct (d / fst sw * 3600 * 1000 + fst pw)"
      using k by (simp add: ct'_def)
    moreover have "pause \<le> 0 \<longrightarrow> fst pw = 0"
      using generateTrackPoints_pause_props(2) [of pause "snd sw"] by (simp add: pw_def)
    moreover have "fst pw = 0 \<or> (\<exists>r' \<in> sset (random w0). fst pw = pause * 1000 * (0.5 + r' * 0.5))"
      using generateTrackPoints_pause_props(3) [of pause "snd sw"] sw by (auto simp: pw_def)
    moreover have "r \<in> sset (random w0)" using r ew(1) by blast
    moreover have "GPXPoint.elevation p = Some e" by (simp add: p_def e)
    ultimately show ?thesis
      unfolding speed using pe by (intro bexI [of _ r] exI [of _ "fst pw"] exI [of _ e] exI [of _ pe]) simp_all
  qed
  show ?thesis
  proof (intro exI conjI impI)
    show "generateTrackPoints_body distance cs speedKmh gain profile noise pause routeKm
                cumulative (points, ct, td, w) k = (points @ [p], ct', td', w')"
      by (rule body)
    show "GPXPoint.time p = Some ct" by (rule time)
    show "track_invariant (gain \<noteq> None \<or> profile \<noteq> Flat) w0 (Suc k) (points @ [p], ct', td', w')"
      using inv' by (simp only: tracked_def)
    show "\<exists>r \<in> sset (random w0). \<exists>pauseMs e pe.
                 GPXPoint.elevation p = Some e \<and>
                 GPXPoint.elevation (points ! (k - 1)) = Some pe \<and>
                 (pause \<le> 0 \<longrightarrow> pauseMs = 0) \<and>
                 (pauseMs = 0 \<or> (\<exists>r' \<in> sset (random w0). pauseMs = pause * 1000 * (0.5 + r' * 0.5))) \<and>
                 ct' = dateAfter ct
                   (calculateSegmentDistance distance (cs ! k) (cs ! Suc k) /
                      (speedKmh * (0.8 + r * 0.4) *
                         calculateSpeedAdjustmentForElevation (e - pe)
                           (calculateSegmentDistance distance (cs ! k) (cs ! Suc k)))
                      * 3600 * 1000 + pauseMs)"
      if "noise \<and> 0 < k \<and> Suc k < length cs \<and> (gain \<noteq> None \<or> profile \<noteq> Flat)"
      using grade that unfolding tracked_def d_def by blast
  qed
qed


lemma calculateSpeedAdjustmentForElevation_nonzero:
  "calculateSpeedAdjustmentForElevation elevationChange d \<noteq> 0"
  by (simp add: calculateSpeedAdjustmentForElevation_def Let_def)

lemma generateTrackPoints_loop_state:
  fixes gain :: "real option"
  shows "\<exists>points ct td w.
           foldl (generateTrackPoints_body distance cs speedKmh gain profile noise pause routeKm
                    cumulative) ([], start, 0, w0) [0..<k] = (points, ct, td, w) \<and>
           track_invariant (gain \<noteq> None \<or> profile \<noteq> Flat) w0 k (points, ct, td, w)"
proof (induction k)
  case 0
  show ?case by (simp add: track_invariant_def)
next
  case (Suc k)
  then obtain points ct td w where
    st: "foldl (generateTrackPoints_body distance cs speedKmh gain profile noise pause routeKm
                    cumulative) ([], start, 0, w0) [0..<k] = (points, ct, td, w)"
    and inv: "track_invariant (gain \<noteq> None \<or> profile \<noteq> Flat) w0 k (points, ct, td, w)"
    by blast
  from generateTrackPoints_body_step [OF inv, of distance cs speedKmh noise pause routeKm cumulative]
  obtain p ct' td' w' where
    "generateTrackPoints_body distance cs speedKmh gain profile noise pause routeKm cumulative
             (points, ct, td, w) k = (points @ [p], ct', td', w')"
    "track_invariant (gain \<noteq> None \<or> profile \<noteq> Flat) w0 (Suc k) (points @ [p], ct', td', w')"
    by blast
  then show ?case by (simp add: st)
qed

lemma generateTrackPoints_loop_prefix:
  fixes gain :: "real option"
  assumes "k \<le> m"
  shows "take k (fst (foldl (generateTrackPoints_body distance cs speedKmh gain profile noise pause
                               routeKm cumulative) ([], start, 0, w0) [0..<m]))
         = fst (foldl (generateTrackPoints_body distance cs speedKmh gain profile noise pause
                               routeKm cumulative) ([], start, 0, w0) [0..<k])"
  using assms
proof (induction m)
  case 0
  then show ?case by simp
next
  case (Suc m)
  show ?case
  proof (cases "k = Suc m")
    case True
    from generateTrackPoints_loop_state [of distance cs speedKmh gain profile noise pause routeKm
        cumulative start w0 "Suc m"]
    have "length (fst (foldl (generateTrackPoints_body distance cs speedKmh gain profile noise pause
                               routeKm cumulative) ([], start, 0, w0) [0..<Suc m])) = Suc m"
      by (auto simp: track_invariant_def)
    then show ?thesis unfolding True by (simp del: upt_Suc)
  next
    case False
    with Suc.prems have km: "k \<le> m" by simp
    from generateTrackPoints_loop_state [of distance cs speedKmh gain profile noise pause routeKm
        cumulative start w0 m]
    obtain points ct td w where
      st: "foldl (generateTrackPoints_body distance cs speedKmh gain profile noise pause routeKm
                    cumulative) ([], start, 0, w0) [0..<m] = (points, ct, td, w)"
      and inv: "track_invariant (gain \<noteq> None \<or> profile \<noteq> Flat) w0 m (points, ct, td, w)"
      by blast
    from generateTrackPoints_body_step [OF inv, of distance cs speedKmh noise pause routeKm cumulative]
    obtain p ct' td' w' where
      body: "generateTrackPoints_body distance cs speedKmh gain profile noise pause routeKm cumulative
             (points, ct, td, w) m = (points @ [p], ct', td', w')"
      by blast
    have len: "length points = m" using inv by (simp add: track_invariant_def)
    have "take k (points @ [p]) = take k points" using km len by simp
    then show ?thesis
      using Suc.IH [OF km] by (simp add: st body)
  qed
qed

text \<open>
  What the loop does with the grade multiplier, on every route with \<^verbatim>\<open>addNoise\<close> on and
  elevations tracked, for a speed that is not zero and draws from 0 to 1 (excluded). For
  every point \<open>i\<close> that has a point before it and one after it, the time of point \<open>i + 1\<close>
  is the time of point \<open>i\<close> plus the travel time of the segment from \<open>i\<close> to \<open>i + 1\<close> at
  the speed \<open>speedKmh \<times> variation \<times> multiplier\<close>, plus the pause: the variation is
  \<open>0.8 + r \<times> 0.4\<close> for a draw \<open>r\<close>, and the multiplier is that of the elevation change
  from point \<open>i - 1\<close> to point \<open>i\<close>, the segment before, over the distance of the segment
  from \<open>i\<close> to \<open>i + 1\<close>.
\<close>

lemma generateTrackPoints_segment_time:
  fixes gain :: "real option"
  assumes "0 < i" and "Suc i < length cs" and "gain \<noteq> None \<or> profile \<noteq> Flat"
    and "speedKmh \<noteq> 0" and "\<forall>r \<in> sset (random w). 0 \<le> r \<and> r < 1"
  shows "\<exists>t e pe. \<exists>r \<in> sset (random w). \<exists>pauseMs.
           speedKmh * (0.8 + r * 0.4) *
             calculateSpeedAdjustmentForElevation (e - pe)
               (calculateSegmentDistance distance (cs ! i) (cs ! Suc i)) \<noteq> 0 \<and>
           GPXPoint.time
             (fst (generateTrackPoints distance cs start speedKmh gain profile True pause w) ! i)
             = Some t \<and>
           GPXPoint.elevation
             (fst (generateTrackPoints distance cs start speedKmh gain profile True pause w) ! i)
             = Some e \<and>
           GPXPoint.elevation
             (fst (generateTrackPoints distance cs start speedKmh gain profile True pause w) ! (i - 1))
             = Some pe \<and>
           (pause \<le> 0 \<longrightarrow> pauseMs = 0) \<and>
           (pauseMs = 0 \<or> (\<exists>r' \<in> sset (random w). pauseMs = pause * 1000 * (0.5 + r' * 0.5))) \<and>
           GPXPoint.time
             (fst (generateTrackPoints distance cs start speedKmh gain profile True pause w) ! Suc i)
             = Some (dateAfter t
                 (calculateSegmentDistance distance (cs ! i) (cs ! Suc i) /
                    (speedKmh * (0.8 + r * 0.4) *
                       calculateSpeedAdjustmentForElevation (e - pe)
                         (calculateSegmentDistance distance (cs ! i) (cs ! Suc i)))
                    * 3600 * 1000 + pauseMs))"
proof -
  define body where "body = generateTrackPoints_body distance cs speedKmh gain profile True pause
                              (calculateCoordinatesDistance distance cs) 0"
  define S where "S k = foldl body ([], start, 0, w) [0..<k]" for k
  define ps where "ps = fst (generateTrackPoints distance cs start speedKmh gain profile True pause w)"
  have n: "\<not> length cs < 2" using assms by simp
  have ps: "ps = fst (S (length cs))"
    using n by (simp add: ps_def generateTrackPoints_def Let_def split_beta S_def body_def)
  obtain points ct td wi where
    Si: "S i = (points, ct, td, wi)"
    and inv: "track_invariant (gain \<noteq> None \<or> profile \<noteq> Flat) w i (points, ct, td, wi)"
    using generateTrackPoints_loop_state [of distance cs speedKmh gain profile True pause
        "calculateCoordinatesDistance distance cs" 0 start w i]
    unfolding S_def body_def by blast
  from generateTrackPoints_body_step [OF inv, of distance cs speedKmh True pause
      "calculateCoordinatesDistance distance cs" 0] assms
  obtain p ct' td' w' r pauseMs e pe where
    step: "body (points, ct, td, wi) i = (points @ [p], ct', td', w')"
    and time: "GPXPoint.time p = Some ct"
    and inv': "track_invariant (gain \<noteq> None \<or> profile \<noteq> Flat) w (Suc i) (points @ [p], ct', td', w')"
    and r: "r \<in> sset (random w)"
    and e: "GPXPoint.elevation p = Some e"
    and pe: "GPXPoint.elevation (points ! (i - 1)) = Some pe"
    and pause: "pause \<le> 0 \<longrightarrow> pauseMs = 0"
      "pauseMs = 0 \<or> (\<exists>r' \<in> sset (random w). pauseMs = pause * 1000 * (0.5 + r' * 0.5))"
    and ct': "ct' = dateAfter ct
                   (calculateSegmentDistance distance (cs ! i) (cs ! Suc i) /
                      (speedKmh * (0.8 + r * 0.4) *
                         calculateSpeedAdjustmentForElevation (e - pe)
                           (calculateSegmentDistance distance (cs ! i) (cs ! Suc i)))
                      * 3600 * 1000 + pauseMs)"
    unfolding body_def by blast
  have Ssuc: "S (Suc k) = body (S k) k" for k
    by (simp add: S_def)
  have SSi: "S (Suc i) = (points @ [p], ct', td', w')"
    by (simp only: Ssuc Si step)
  from generateTrackPoints_body_step [OF inv', of distance cs speedKmh True pause
      "calculateCoordinatesDistance distance cs" 0]
  obtain q ct'' td'' w'' where
    step2: "body (points @ [p], ct', td', w') (Suc i) = ((points @ [p]) @ [q], ct'', td'', w'')"
    and time2: "GPXPoint.time q = Some ct'"
    unfolding body_def by blast
  have SSSi: "S (Suc (Suc i)) = ((points @ [p]) @ [q], ct'', td'', w'')"
    by (simp only: Ssuc [of "Suc i"] SSi step2)
  have len: "length points = i" using inv by (simp add: track_invariant_def)
  have "take (Suc (Suc i)) ps = fst (S (Suc (Suc i)))"
    unfolding ps S_def body_def
    using assms(2) by (intro generateTrackPoints_loop_prefix) simp
  then have tk: "take (Suc (Suc i)) ps = points @ [p, q]"
    by (simp add: SSSi)
  have nth: "ps ! j = (points @ [p, q]) ! j" if "j < Suc (Suc i)" for j
    using that tk by (metis nth_take)
  have "ps ! i = p" using nth [of i] len by (simp add: nth_append)
  moreover have "ps ! Suc i = q" using nth [of "Suc i"] len by (simp add: nth_append)
  moreover have "ps ! (i - 1) = points ! (i - 1)"
    using nth [of "i - 1"] len assms(1) by (simp add: nth_append)
  moreover have "speedKmh * (0.8 + r * 0.4) *
             calculateSpeedAdjustmentForElevation (e - pe)
               (calculateSegmentDistance distance (cs ! i) (cs ! Suc i)) \<noteq> 0"
  proof -
    have "0 \<le> r" using assms(5) r by blast
    then have "0.8 + r * 0.4 \<noteq> 0" by simp
    with assms(4) calculateSpeedAdjustmentForElevation_nonzero show ?thesis by simp
  qed
  ultimately show ?thesis
    unfolding ps_def [symmetric]
    using time time2 e pe pause ct' r
    by (intro exI [of _ ct] exI [of _ e] exI [of _ pe] bexI [of _ r] exI [of _ pauseMs]) simp_all
qed

lemma upt_0_3: "[0..<3] = [0, 1, 2]"
  by (simp add: upt_conv_Cons)

text \<open>
  Three coordinates one kilometre apart, at 10 km/h with a gain of 1000 m on flat terrain
  and every draw 1/4: the elevations are -2, 498 and 998. With \<^verbatim>\<open>addNoise\<close> off both
  segments take the 360000 ms of 10 km/h, whatever the rise.
\<close>

lemma quiet_track:
  "fst (generateTrackPoints unit_distance three_coordinates (Date 0) 10 (Some 1000) Flat False 0
          steady_world)
   = [\<lparr>lat = 0, lng = 0, GPXPoint.elevation = Some (- 2), GPXPoint.time = Some (Date 0)\<rparr>,
      \<lparr>lat = 1, lng = 0, GPXPoint.elevation = Some 498, GPXPoint.time = Some (Date 360000)\<rparr>,
      \<lparr>lat = 2, lng = 0, GPXPoint.elevation = Some 998, GPXPoint.time = Some (Date 720000)\<rparr>]"
  by (simp add: generateTrackPoints_def generateTrackPoints_body_def
      generateTrackPoints_elevation_def generateTrackPoints_speed_def
      generateTrackPoints_pause_def calculateElevation_def calculateSegmentDistance_def
      three_coordinates_def unit_distance_def upt_0_3 Let_def Math_random_def steady_world_def
      num_or_def ELEVATION_PROFILES_def Math_round_def dateAfter_def timeClip_def nth_opt_def)



subsection \<open>Text escaping\<close>

lemma replaceAll_append: "replaceAll c r (xs @ ys) = replaceAll c r xs @ replaceAll c r ys"
  by (simp add: replaceAll_def)

lemma replaceAll_concat_map:
  "replaceAll c r (concat (map f xs)) = concat (map (\<lambda>x. replaceAll c r (f x)) xs)"
  by (induction xs) (simp_all add: replaceAll_append, simp add: replaceAll_def)

lemma escapeXml_one: 
  "replaceAll (CHR 0x27) ''&apos;''
       (replaceAll (CHR 0x22) ''&quot;''
         (replaceAll (CHR ''>'') ''&gt;''
           (replaceAll (CHR ''<'') ''&lt;''
             (if x = CHR ''&'' then ''&amp;'' else [x])))) = escapeXml_char x"
  by (simp add: replaceAll_def escapeXml_char_def)

lemma escapeXml_charwise: "escapeXml text = concat (map escapeXml_char text)"
proof -
  have "escapeXml text = 
     replaceAll (CHR 0x27) ''&apos;''
       (replaceAll (CHR 0x22) ''&quot;''
         (replaceAll (CHR ''>'') ''&gt;''
           (replaceAll (CHR ''<'') ''&lt;''
             (concat (map (\<lambda>x. if x = CHR ''&'' then ''&amp;'' else [x]) text)))))"
    by (simp add: escapeXml_def replaceAll_def)
  also have "\<dots> = concat (map escapeXml_char text)"
    by (simp only: replaceAll_concat_map escapeXml_one)
  finally show ?thesis .
qed

lemma escapeXml_Nil: "escapeXml [] = []"
  by (simp add: escapeXml_charwise)

lemma escapeXml_Cons: "escapeXml (c # cs) = escapeXml_char c @ escapeXml cs"
  by (simp add: escapeXml_charwise)

lemma escaped_escapeXml_char: "escaped rest \<Longrightarrow> escaped (escapeXml_char c @ rest)"
  by (simp add: escapeXml_char_def xml_entities_def)

lemma escaped_escapeXml: "escaped (escapeXml s)"
  by (induction s) (simp_all add: escapeXml_Nil escapeXml_Cons escaped_escapeXml_char)

lemma escapeXml_example: "escapeXml ''Test & Run <x>'' = ''Test &amp; Run &lt;x&gt;''"
  by (simp add: escapeXml_charwise escapeXml_char_def)

lemma escapeXml_quotes: \<open>escapeXml ''Test & Run <with> "quotes"'' = ''Test &amp; Run &lt;with&gt; &quot;quotes&quot;''\<close>
  by (simp add: escapeXml_charwise escapeXml_char_def)

lemma map_throwing_Inr:
  "(\<And>x. x \<in> set xs \<Longrightarrow> \<exists>y. f x = Inr y) \<Longrightarrow> \<exists>ys. map_throwing f xs = Inr ys"
proof (induction xs)
  case Nil
  then show ?case by simp
next
  case (Cons x xs)
  then obtain y where "f x = Inr y" by auto
  moreover from Cons obtain ys where "map_throwing f xs = Inr ys" by auto
  ultimately show ?case by simp
qed

lemma generateGPXXML_metadata:
  assumes "generateGPXXML js nm desc act pts st = Inr doc"
  shows "\<exists>before after. doc = before @ ''<metadata>'' @ newline @
           ''    <name>'' @ escapeXml nm @ ''</name>'' @ newline @
           ''    <desc>'' @ escapeXml desc @ ''</desc>'' @ after"
proof -
  from assms obtain rendered formatted where
    doc: \<open>doc = (''<?xml version="1.0" encoding="UTF-8"?>'' @ newline @ 
            ''<gpx version="1.1" creator="GPX Route Creator" '' @ gpx_attributes @ ''>'' @ newline @
                      ''  '') @ ''<metadata>'' @ newline @
                      ''    <name>'' @ escapeXml nm @ ''</name>'' @ newline @
                      ''    <desc>'' @ escapeXml desc @ ''</desc>'' @ (newline @
                      ''    <time>'' @ formatted @ ''</time>'' @ newline @
                      ''  </metadata>'' @ newline @
                      ''  <trk>'' @ newline @
                      ''    <name>'' @ escapeXml nm @ ''</name>'' @ newline @
                      ''    <type>'' @ escapeXml act @ ''</type>'' @ newline @
                      ''    <trkseg>'' @ newline @
                      join newline rendered @ newline @
                      ''    </trkseg>'' @ newline @
                      ''  </trk>'' @ newline @
                      ''</gpx>'')\<close>
    by (auto simp: generateGPXXML_def Let_def split: sum.splits)
  show ?thesis
    by (rule exI, rule exI, rule doc)
qed

lemma timestampedPointsToGPX_metadata:
  assumes "timestampedPointsToGPX js pts nm desc act w = Inr doc"
  shows "\<exists>before after. doc = before @ ''<metadata>'' @ newline @
           ''    <name>'' @ escapeXml nm @ ''</name>'' @ newline @
           ''    <desc>'' @ escapeXml desc @ ''</desc>'' @ after"
proof -
  from assms obtain rendered formatted where
    doc: \<open>doc = (''<?xml version="1.0" encoding="UTF-8"?>'' @ newline @ 
            ''<gpx version="1.1" creator="Realistic GPX Generator" '' @ gpx_attributes @ ''>'' @ newline @
                      ''  '') @ ''<metadata>'' @ newline @
                      ''    <name>'' @ escapeXml nm @ ''</name>'' @ newline @
                      ''    <desc>'' @ escapeXml desc @ ''</desc>'' @ (newline @
                      ''    <time>'' @ formatted @ ''</time>'' @ newline @
                      ''  </metadata>'' @ newline @
                      ''  <trk>'' @ newline @
                      ''    <name>'' @ escapeXml nm @ ''</name>'' @ newline @
                      ''    <type>'' @ escapeXml act @ ''</type>'' @ newline @
                      ''    <trkseg>'' @ newline @
                      join newline rendered @ newline @
                      ''    </trkseg>'' @ newline @
                      ''  </trk>'' @ newline @
                      ''</gpx>'')\<close>
    by (auto simp: timestampedPointsToGPX_def Let_def split: sum.splits)
  show ?thesis
    by (rule exI, rule exI, rule doc)
qed

lemma generateGPXXML_returns:
  assumes "st \<noteq> InvalidDate" and "\<forall>p \<in> set pts. GPXPoint.time p \<noteq> Some InvalidDate"
  shows "\<exists>doc. generateGPXXML js nm desc act pts st = Inr doc"
proof -
  have "\<exists>y. generateGPXXML_trackPoint js p = Inr y" if "p \<in> set pts" for p
    using that assms(2)
    by (cases "GPXPoint.time p"; cases "the (GPXPoint.time p)")
       (auto simp: generateGPXXML_trackPoint_def formatDate_def Let_def)
  then obtain ys where "map_throwing (generateGPXXML_trackPoint js) pts = Inr ys"
    using map_throwing_Inr [of pts "generateGPXXML_trackPoint js"] by blast
  moreover obtain t where "st = Date t" using assms(1) by (cases st) auto
  ultimately show ?thesis
    by (simp add: generateGPXXML_def formatDate_def Let_def)
qed

text \<open>
  C10. \<^verbatim>\<open>escapeXml\<close> replaces each of the five metacharacters by its entity and leaves
  every other character as it is: the result is the text with \<open>&\<close> turned into \<open>&amp;\<close>,
  \<open><\<close> into \<open>&lt;\<close>, \<open>>\<close> into \<open>&gt;\<close>, the double quote into \<open>&quot;\<close> and the single
  quote into \<open>&apos;\<close>, character by character and in order. The name \<open>Test & Run <x>\<close>
  becomes \<open>Test &amp; Run &lt;x&gt;\<close>, and so it stands in the document; the escaped
  form of every text is free of raw metacharacters; and the metadata of both serialisers
  hold the name and the description in escaped form. The legacy serialiser returns a
  document whenever no date is invalid.
\<close>

theorem escapeXml_serialisation:
  \<open>escapeXml s =
     concat (map (\<lambda>c. if c = CHR ''&'' then ''&amp;''
                       else if c = CHR ''<'' then ''&lt;''
                       else if c = CHR ''>'' then ''&gt;''
                       else if c = CHR 0x22 then ''&quot;''
                       else if c = CHR 0x27 then ''&apos;''
                       else [c]) s) \<and>
   escapeXml ''Test & Run <x>'' = ''Test &amp; Run &lt;x&gt;'' \<and>
   escaped (escapeXml s) \<and>
   (st \<noteq> InvalidDate \<and> (\<forall>p \<in> set pts. GPXPoint.time p \<noteq> Some InvalidDate) \<longrightarrow>
      (\<exists>doc. generateGPXXML js nm desc act pts st = Inr doc)) \<and>
   (generateGPXXML js nm desc act pts st = Inr doc \<longrightarrow>
      (\<exists>before after. doc = before @ ''<metadata>'' @ newline @
           ''    <name>'' @ escapeXml nm @ ''</name>'' @ newline @
           ''    <desc>'' @ escapeXml desc @ ''</desc>'' @ after)) \<and>
   (timestampedPointsToGPX js tpts nm desc act w = Inr tdoc \<longrightarrow>
      (\<exists>before after. tdoc = before @ ''<metadata>'' @ newline @
           ''    <name>'' @ escapeXml nm @ ''</name>'' @ newline @
           ''    <desc>'' @ escapeXml desc @ ''</desc>'' @ after)) \<and>
   (generateGPXXML js ''Test & Run <x>'' desc act pts st = Inr xdoc \<longrightarrow>
      sublist ''<name>Test &amp; Run &lt;x&gt;</name>'' xdoc)\<close>
proof (intro conjI impI)
  have "escapeXml_char =
          (\<lambda>c. if c = CHR ''&'' then ''&amp;''
                else if c = CHR ''<'' then ''&lt;''
                else if c = CHR ''>'' then ''&gt;''
                else if c = CHR 0x22 then ''&quot;''
                else if c = CHR 0x27 then ''&apos;''
                else [c])"
    by (rule ext) (simp add: escapeXml_char_def)
  then show \<open>escapeXml s =
     concat (map (\<lambda>c. if c = CHR ''&'' then ''&amp;''
                       else if c = CHR ''<'' then ''&lt;''
                       else if c = CHR ''>'' then ''&gt;''
                       else if c = CHR 0x22 then ''&quot;''
                       else if c = CHR 0x27 then ''&apos;''
                       else [c]) s)\<close>
    by (simp add: escapeXml_charwise)
  show ex: "escapeXml ''Test & Run <x>'' = ''Test &amp; Run &lt;x&gt;''"
    by (simp add: escapeXml_charwise escapeXml_char_def)
  show "escaped (escapeXml s)"
    by (rule escaped_escapeXml)
  show "\<exists>doc. generateGPXXML js nm desc act pts st = Inr doc"
    if "st \<noteq> InvalidDate \<and> (\<forall>p \<in> set pts. GPXPoint.time p \<noteq> Some InvalidDate)"
    using that generateGPXXML_returns by blast
  show "\<exists>before after. doc = before @ ''<metadata>'' @ newline @
           ''    <name>'' @ escapeXml nm @ ''</name>'' @ newline @
           ''    <desc>'' @ escapeXml desc @ ''</desc>'' @ after"
    if "generateGPXXML js nm desc act pts st = Inr doc"
    using that by (rule generateGPXXML_metadata)
  show "\<exists>before after. tdoc = before @ ''<metadata>'' @ newline @
           ''    <name>'' @ escapeXml nm @ ''</name>'' @ newline @
           ''    <desc>'' @ escapeXml desc @ ''</desc>'' @ after"
    if "timestampedPointsToGPX js tpts nm desc act w = Inr tdoc"
    using that by (rule timestampedPointsToGPX_metadata)
  show "sublist ''<name>Test &amp; Run &lt;x&gt;</name>'' xdoc"
    if "generateGPXXML js ''Test & Run <x>'' desc act pts st = Inr xdoc"
  proof -
    from generateGPXXML_metadata [OF that] obtain before after where
      "xdoc = before @ ''<metadata>'' @ newline @
           ''    <name>'' @ escapeXml ''Test & Run <x>'' @ ''</name>'' @ newline @
           ''    <desc>'' @ escapeXml desc @ ''</desc>'' @ after"
      by blast
    then have "xdoc = (before @ ''<metadata>'' @ newline @ ''    '') @
                 ''<name>Test &amp; Run &lt;x&gt;</name>'' @
                 (newline @ ''    <desc>'' @ escapeXml desc @ ''</desc>'' @ after)"
      by (simp add: ex)
    then show ?thesis
      unfolding sublist_def by blast
  qed
qed

theorem escapeXml_serialisation_witness:
  "escaped (escapeXml ''Test & Run <x>'') \<and>
   Date 0 \<noteq> InvalidDate \<and>
   \<not> isl (generateGPXXML plain_builtins ''Test & Run <x>'' ''a < b'' ''Run'' [] (Date 0)) \<and>
   sublist ''<name>Test &amp; Run &lt;x&gt;</name>''
     (projr (generateGPXXML plain_builtins ''Test & Run <x>'' ''a < b'' ''Run'' [] (Date 0)))"
proof -
  have "\<exists>doc. generateGPXXML plain_builtins ''Test & Run <x>'' ''a < b'' ''Run'' [] (Date 0) = Inr doc"
    using escapeXml_serialisation [where st = "Date 0" and pts = "[]" and js = plain_builtins
        and nm = "''Test & Run <x>''" and desc = "''a < b''" and act = "''Run''"]
    by simp
  then obtain doc where
    doc: "generateGPXXML plain_builtins ''Test & Run <x>'' ''a < b'' ''Run'' [] (Date 0) = Inr doc"
    by blast
  have "sublist ''<name>Test &amp; Run &lt;x&gt;</name>'' doc"
    using escapeXml_serialisation [where xdoc = doc and st = "Date 0" and pts = "[]"
        and js = plain_builtins and desc = "''a < b''" and act = "''Run''"] doc
    by blast
  moreover have "escaped (escapeXml ''Test & Run <x>'')"
    using escapeXml_serialisation [where s = "''Test & Run <x>''"] by blast
  ultimately show ?thesis
    using doc by simp
qed

end
